theory Spec2Isabelle
  imports Main "HOL-Library.Sublist"
begin

section \<open>Rows of the remote tables\<close>

text \<open>
  Every value that the two components classify is a row fetched from a hosted table.
  The records below are the columns the two components read.
  Text columns are \<^typ>\<open>string\<close> (ASCII), a nullable column or an absent JSON
  property is an \<^typ>\<open>'a option\<close>, a JSON array is a list and the JSON object
  \<open>species_safe\<close> is an association list from species names to flags, read with
  \<^const>\<open>map_of\<close>.

  The two \<open>jsonb\<close> columns of \<open>ingredients\<close> have the shape the schema
  documents and its sample rows use: \<open>toxicity_warnings\<close> is null or an array of
  objects with an optional array of species names and an optional effect text,
  \<open>species_safe\<close> is null or an object of booleans. Classification labels and
  contraindication types are kept as the strings the running program compares.
\<close>

type_synonym err = string

record toxicity_warning =
  tw_species :: "string list option"
  tw_effect :: "string option"

record ingredient =
  ing_id :: string
  ing_name :: string
  species_safe :: "(string \<times> bool) list option"
  toxicity_warnings :: "toxicity_warning list option"

record contraindication =
  condition_name :: string
  contraindication_type :: string
  contra_rationale :: "string option"

record profile =
  species_type :: string

record user =
  user_id :: string

text \<open>The interfaces \<open>Dish\<close> and \<open>DishRiskAssessment\<close> of RestaurantBrowser.tsx
  (the fields of a dish that no operation here reads are left out).\<close>

record dish =
  dish_id :: string
  dish_name :: string
  ingredients :: "string list"

record contra_entry =
  ce_ingredient :: string
  ce_reason :: "string option"
  ce_severity :: string

record dish_risk_assessment =
  dra_dish_id :: string
  risk_classification :: string
  risk_score :: int
  dra_rationale :: string
  contraindications :: "contra_entry list"
  recommended_substitutions :: "string list"

text \<open>The interface \<open>LookupResult\<close> of FoodLookup.tsx.\<close>

record lookup_result =
  food_name :: string
  safety_classification :: string
  rationale :: string
  ingredients_identified :: "string list"


record grocery_store =
  store_id :: string
  store_name :: string


record shopping_list_item =
  item_product_id :: string
  item_product_name :: string
  item_quantity :: int
  item_unit :: string
  item_price :: int
  item_store_id :: string
  item_checked :: bool

text \<open>A row inserted into \<open>smart_shopping_lists\<close>; a key that the object literal
  does not have is \<open>None\<close>, and the two constant columns \<open>list_type: 'weekly'\<close> and
  \<open>status: 'ready'\<close> are left out.\<close>

record shopping_list =
  list_profile_id :: string
  list_name :: string
  list_store_id :: "string option"
  list_source_meal_plan_id :: "string option"
  list_items :: "shopping_list_item list"
  list_total_cost :: int



text \<open>A row inserted into \<open>medication_doses\<close> (its \<open>status\<close> is always
  \<open>'scheduled'\<close>), a row of that table joined with the name of its medication, the
  form of a new medication, a row of \<open>user_recipes\<close>, and the columns that
  \<open>handleSave\<close> writes to \<open>profiles\<close>.\<close>

record dose_insert =
  di_user_medication_id :: string
  di_profile_id :: string
  di_scheduled_time :: string

record dose_row =
  dose_id :: string
  dose_scheduled_time :: string
  dose_status :: string
  dose_medication_name :: "string option"

record new_medication =
  nm_medication_name :: string
  nm_dosage :: string
  nm_frequency :: string
  nm_schedule_times :: "string list"
  nm_start_date :: string
  nm_reason :: string
  nm_prescribing_provider :: string
  nm_special_instructions :: string


record profile_update =
  pu_full_name :: string
  pu_date_of_birth :: "string option"
  pu_weight_kg :: "string option"
  pu_height_cm :: "string option"
  pu_updated_at :: string

section \<open>The remote interface\<close>

text \<open>
  The client object \<open>supabase\<close> is imported from a module outside the sources at
  hand, so the remote service is a parameter: one function per query the components
  issue. A reply is \<open>Inl e\<close> when the awaited promise rejects with \<open>e\<close> (the
  \<open>await\<close> throws) and \<open>Inr d\<close> when it resolves; \<open>d\<close> is what the code
  destructures from the reply, \<open>None\<close> standing for \<open>null\<close>. The first argument
  of every function is the number of remote calls issued before this one, so the
  service may answer the same query differently at different moments.
\<close>

record backend =
  auth_getUser :: "nat \<Rightarrow> err + user option"
  profiles_maybeSingle :: "nat \<Rightarrow> string \<Rightarrow> err + profile option"
  ingredients_search :: "nat \<Rightarrow> string \<Rightarrow> err + ingredient option"
  ingredients_maybeSingle :: "nat \<Rightarrow> string \<Rightarrow> err + ingredient option"
  contraindications_select :: "nat \<Rightarrow> string \<Rightarrow> string \<Rightarrow> err + contraindication list option"
  contraindications_maybeSingle :: "nat \<Rightarrow> string \<Rightarrow> string \<Rightarrow> err + contraindication option"
  lookup_history_insert :: "nat \<Rightarrow> string \<Rightarrow> lookup_result \<Rightarrow> err + unit"
  lookup_history_select :: "nat \<Rightarrow> err + lookup_result list option"
  dish_assessments_upsert :: "nat \<Rightarrow> string \<Rightarrow> dish_risk_assessment \<Rightarrow> err + err option"
  dishes_select :: "nat \<Rightarrow> string \<Rightarrow> err + (dish list option \<times> err option)"


text \<open>
  What the program does to the outside is recorded in a \<open>world\<close>: the remote calls
  in the order they were issued, each with the way it ended, and the lines written with
  \<open>console.error\<close>.
\<close>

datatype request =
    AuthGetUser
  | SelectProfile string
  | SearchIngredient string
  | SelectIngredient string
  | ListContraindications string string
  | SelectContraindication string string
  | InsertLookupHistory string lookup_result
  | SelectLookupHistory
  | UpsertDishAssessment string dish_risk_assessment
  | SelectDishes string
  | SignOut
  | SelectProfileRow string
  | UpdateProfile string profile_update
  | SelectBiomarkers
  | SelectMealPlans
  | SelectRestaurants
  | SelectRecipes "string option"
  | SelectUserRecipes
  | UpdateUserRecipe string string bool
  | InsertUserRecipe string string
  | SelectStores
  | SelectProducts string
  | SelectShoppingLists
  | InsertShoppingList shopping_list
  | SelectActiveMealPlan
  | SelectRecipeIngredients
  | SearchProduct string
  | SelectMedications
  | SelectDoses string string
  | SelectAlerts
  | InsertMedication string new_medication
  | SelectUserMedications string
  | InsertDoses "dose_insert list"
  | UpdateDose string string
  | UpdateAlert string string

datatype outcome = Rejected err | Resolved | Failed err

record world =
  calls :: "(request \<times> outcome) list"
  console :: "string list"

definition outcome_of :: "err + 'a \<Rightarrow> outcome" where
  "outcome_of r = (case r of Inl e \<Rightarrow> Rejected e | Inr _ \<Rightarrow> Resolved)"

definition remote :: "request \<Rightarrow> (nat \<Rightarrow> err + 'a) \<Rightarrow> world \<Rightarrow> (err + 'a) \<times> world" where
  "remote rq f w =
     (let r = f (length (calls w))
      in (r, w\<lparr>calls := calls w @ [(rq, outcome_of r)]\<rparr>))"

definition console_error :: "string \<Rightarrow> world \<Rightarrow> world" where
  "console_error msg w = w\<lparr>console := console w @ [msg]\<rparr>"

text \<open>
  \<open>await m k\<close> runs \<open>m\<close>; when it throws, the rest of the \<open>try\<close> block is
  skipped, otherwise \<open>k\<close> continues with its value. \<open>return\<close> ends without effect.
\<close>

definition await :: "('s \<Rightarrow> (err + 'a) \<times> 's) \<Rightarrow> ('a \<Rightarrow> 's \<Rightarrow> (err + 'b) \<times> 's) \<Rightarrow> 's \<Rightarrow> (err + 'b) \<times> 's" where
  "await m k s = (case m s of (Inl e, s') \<Rightarrow> (Inl e, s') | (Inr x, s') \<Rightarrow> k x s')"

definition return :: "'a \<Rightarrow> 's \<Rightarrow> (err + 'a) \<times> 's" where
  "return x s = (Inr x, s)"



section \<open>Checks shared by both components\<close>

text \<open>\<open>profile?.species_type || 'human'\<close>: a missing row and an empty text both give
  the default.\<close>

definition speciesType_of :: "profile option \<Rightarrow> string" where
  "speciesType_of p =
     (case p of None \<Rightarrow> ''human''
      | Some pr \<Rightarrow> if species_type pr = [] then ''human'' else species_type pr)"

text \<open>\<open>warning.species?.includes(speciesType)\<close>, and the guarded
  \<open>toxicity_warnings.find(...)\<close>: the first warning that lists the species.\<close>

definition lists_species :: "string \<Rightarrow> toxicity_warning \<Rightarrow> bool" where
  "lists_species sp wn = (case tw_species wn of None \<Rightarrow> False | Some xs \<Rightarrow> sp \<in> set xs)"

definition toxicForSpecies :: "ingredient \<Rightarrow> string \<Rightarrow> toxicity_warning option" where
  "toxicForSpecies ing sp =
     (case toxicity_warnings ing of
        None \<Rightarrow> None
      | Some ws \<Rightarrow> if length ws > 0 then find (lists_species sp) ws else None)"

text \<open>\<open>species_safe && species_safe[speciesType] === false\<close>.\<close>

definition unsafe_for_species :: "ingredient \<Rightarrow> string \<Rightarrow> bool" where
  "unsafe_for_species ing sp =
     (case species_safe ing of None \<Rightarrow> False | Some m \<Rightarrow> map_of m sp = Some False)"

text \<open>\<open>x || d\<close> on an optional text: null, undefined and the empty text give \<open>d\<close>.\<close>

definition or_default :: "string option \<Rightarrow> string \<Rightarrow> string" where
  "or_default x d = (case x of None \<Rightarrow> d | Some s \<Rightarrow> if s = [] then d else s)"

text \<open>A nullable text inside a template literal prints as \<open>null\<close>.\<close>

definition interpolate :: "string option \<Rightarrow> string" where
  "interpolate x = (case x of None \<Rightarrow> ''null'' | Some s \<Rightarrow> s)"

section \<open>RestaurantBrowser: calculateDishRisk\<close>

text \<open>The four local variables of \<open>calculateDishRisk\<close> that the loop over the
  ingredients updates.\<close>

record risk_vars =
  riskClassification :: string
  riskScore :: int
  rv_rationale :: string
  rv_contraindications :: "contra_entry list"

datatype flow = Continue | Break

definition initial_risk_vars :: risk_vars where
  "initial_risk_vars =
     \<lparr>riskClassification = ''neutral'', riskScore = 50,
      rv_rationale = ''This dish has been reviewed for your profile.'',
      rv_contraindications = []\<rparr>"

text \<open>The branch taken when a toxicity warning lists the species (it ends with
  \<open>break\<close>), the branch of the species flag (also \<open>break\<close>), and the update
  made from the contraindication row.\<close>

definition toxic_branch :: "ingredient \<Rightarrow> string \<Rightarrow> toxicity_warning \<Rightarrow> risk_vars \<Rightarrow> risk_vars" where
  "toxic_branch ing sp wn v =
     v\<lparr>riskClassification := ''avoid'', riskScore := 95,
       rv_rationale := ''DANGER: '' @ ing_name ing @ '' is toxic to '' @ sp @ ''s. ''
                        @ or_default (tw_effect wn) '''',
       rv_contraindications := rv_contraindications v @
          [\<lparr>ce_ingredient = ing_name ing, ce_reason = Some ''toxic'', ce_severity = ''critical''\<rparr>]\<rparr>"

definition unsafe_branch :: "ingredient \<Rightarrow> string \<Rightarrow> risk_vars \<Rightarrow> risk_vars" where
  "unsafe_branch ing sp v =
     v\<lparr>riskClassification := ''avoid'', riskScore := 90,
       rv_rationale := ing_name ing @ '' is not safe for '' @ sp @ '' consumption.'',
       rv_contraindications := rv_contraindications v @
          [\<lparr>ce_ingredient = ing_name ing, ce_reason = Some ''unsafe_for_species'',
            ce_severity = ''high''\<rparr>]\<rparr>"

definition contraindication_branch :: "ingredient \<Rightarrow> contraindication option \<Rightarrow> risk_vars \<Rightarrow> risk_vars" where
  "contraindication_branch ing c v =
     (case c of
        None \<Rightarrow> v
      | Some ci \<Rightarrow>
          if contraindication_type ci = ''avoid'' then
            v\<lparr>riskClassification := ''caution'', riskScore := max (riskScore v) 70,
              rv_rationale := ''Contains '' @ ing_name ing @ '': '' @ interpolate (contra_rationale ci),
              rv_contraindications := rv_contraindications v @
                 [\<lparr>ce_ingredient = ing_name ing, ce_reason = contra_rationale ci,
                   ce_severity = ''medium''\<rparr>]\<rparr>
          else if contraindication_type ci = ''limit'' then
            (if riskClassification v = ''neutral''
             then v\<lparr>riskClassification := ''caution'', riskScore := max (riskScore v) 60\<rparr>
             else v)
          else v)"

text \<open>One pass of the body of \<open>for (const ingredientName of dish.ingredients)\<close>.\<close>

definition ingredient_step :: "backend \<Rightarrow> string \<Rightarrow> string \<Rightarrow> risk_vars \<Rightarrow> world \<Rightarrow> (err + flow \<times> risk_vars) \<times> world" where
  "ingredient_step be sp ingredientName v =
     await (remote (SelectIngredient ingredientName)
                   (\<lambda>t. ingredients_maybeSingle be t ingredientName))
       (\<lambda>ingredient.
          case ingredient of
            None \<Rightarrow> return (Continue, v)
          | Some ing \<Rightarrow>
              (case toxicForSpecies ing sp of
                 Some wn \<Rightarrow> return (Break, toxic_branch ing sp wn v)
               | None \<Rightarrow>
                   if unsafe_for_species ing sp then return (Break, unsafe_branch ing sp v)
                   else
                     await (remote (SelectContraindication (ing_id ing) sp)
                                   (\<lambda>t. contraindications_maybeSingle be t (ing_id ing) sp))
                       (\<lambda>c. return (Continue, contraindication_branch ing c v))))"

fun ingredient_loop :: "backend \<Rightarrow> string \<Rightarrow> string list \<Rightarrow> risk_vars \<Rightarrow> world \<Rightarrow> (err + risk_vars) \<times> world" where
  "ingredient_loop be sp [] v w = (Inr v, w)"
| "ingredient_loop be sp (n # ns) v w =
     (case ingredient_step be sp n v w of
        (Inl e, w') \<Rightarrow> (Inl e, w')
      | (Inr (Break, v'), w') \<Rightarrow> (Inr v', w')
      | (Inr (Continue, v'), w') \<Rightarrow> ingredient_loop be sp ns v' w')"

text \<open>The statement after the loop: a dish still \<open>neutral\<close> with nothing recorded
  becomes \<open>safe\<close>.\<close>

definition default_safe :: "risk_vars \<Rightarrow> risk_vars" where
  "default_safe v =
     (if riskClassification v = ''neutral'' \<and> length (rv_contraindications v) = 0
      then v\<lparr>riskClassification := ''safe'', riskScore := 20,
             rv_rationale := ''This dish appears safe based on your health profile.''\<rparr>
      else v)"

definition assessment_of :: "dish \<Rightarrow> risk_vars \<Rightarrow> dish_risk_assessment" where
  "assessment_of d v =
     \<lparr>dra_dish_id = dish_id d, risk_classification = riskClassification v,
      risk_score = riskScore v, dra_rationale = rv_rationale v,
      contraindications = rv_contraindications v, recommended_substitutions = []\<rparr>"

text \<open>The \<open>try\<close> block, then the whole function with its \<open>catch\<close>. A dish
  has a list of ingredient names, as the interface \<open>Dish\<close> declares; were the column
  null, the loop header would throw and the \<open>catch\<close> would return the same
  \<open>neutral\<close> result and write its line.\<close>

definition calculateDishRisk_try :: "backend \<Rightarrow> dish \<Rightarrow> string \<Rightarrow> world \<Rightarrow> (err + dish_risk_assessment) \<times> world" where
  "calculateDishRisk_try be d userId =
     await (remote (SelectProfile userId) (\<lambda>t. profiles_maybeSingle be t userId))
       (\<lambda>prof.
          await (ingredient_loop be (speciesType_of prof) (ingredients d) initial_risk_vars)
            (\<lambda>v. return (assessment_of d (default_safe v))))"

definition unable_to_assess :: "dish \<Rightarrow> dish_risk_assessment" where
  "unable_to_assess d =
     \<lparr>dra_dish_id = dish_id d, risk_classification = ''neutral'', risk_score = 50,
      dra_rationale = ''Unable to assess risk at this time.'',
      contraindications = [], recommended_substitutions = []\<rparr>"

definition calculateDishRisk :: "backend \<Rightarrow> dish \<Rightarrow> string \<Rightarrow> world \<Rightarrow> dish_risk_assessment \<times> world" where
  "calculateDishRisk be d userId w =
     (case calculateDishRisk_try be d userId w of
        (Inr a, w') \<Rightarrow> (a, w')
      | (Inl e, w') \<Rightarrow> (unable_to_assess d, console_error (''Error calculating risk: '' @ e) w'))"

section \<open>RestaurantBrowser: assessDishRisks, loadDishes, filteredDishes\<close>

text \<open>The component state that these operations read or write: the hooks
  \<open>dishes\<close>, \<open>riskAssessments\<close> (a \<open>Map\<close> from dish id to assessment) and
  \<open>filterRisk\<close>. A component operation works on the pair of this state and the
  world.\<close>

record browser_state =
  dishes :: "dish list"
  riskAssessments :: "string \<rightharpoonup> dish_risk_assessment"
  filterRisk :: string

definition on_world :: "(world \<Rightarrow> (err + 'a) \<times> world) \<Rightarrow> 'u \<times> world \<Rightarrow> (err + 'a) \<times> ('u \<times> world)" where
  "on_world m s = (case m (snd s) of (r, w') \<Rightarrow> (r, (fst s, w')))"

definition set_state :: "('u \<Rightarrow> 'u) \<Rightarrow> 'u \<times> world \<Rightarrow> (err + unit) \<times> ('u \<times> world)" where
  "set_state f s = (Inr (), (f (fst s), snd s))"

definition throw :: "err \<Rightarrow> 's \<Rightarrow> (err + 'a) \<times> 's" where
  "throw e s = (Inl e, s)"

definition log_error :: "string \<Rightarrow> 'u \<times> world \<Rightarrow> 'u \<times> world" where
  "log_error msg s = (fst s, console_error msg (snd s))"



text \<open>The body of \<open>for (const dish of dishList)\<close>: assess, store in the local map,
  save remotely, log an error the save returns. The time stamp of the saved row is not
  modelled.\<close>

fun assess_loop :: "backend \<Rightarrow> string \<Rightarrow> dish list \<Rightarrow> (string \<rightharpoonup> dish_risk_assessment) \<Rightarrow> world \<Rightarrow> (err + (string \<rightharpoonup> dish_risk_assessment)) \<times> world" where
  "assess_loop be userId [] assessmentMap w = (Inr assessmentMap, w)"
| "assess_loop be userId (d # ds) assessmentMap w =
     (case calculateDishRisk be d userId w of
        (assessment, w1) \<Rightarrow>
          (case remote (UpsertDishAssessment userId assessment)
                       (\<lambda>t. dish_assessments_upsert be t userId assessment) w1 of
             (Inl e, w2) \<Rightarrow> (Inl e, w2)
           | (Inr error, w2) \<Rightarrow>
               assess_loop be userId ds (assessmentMap(dish_id d \<mapsto> assessment))
                 (case error of
                    None \<Rightarrow> w2
                  | Some er \<Rightarrow> console_error (''Error saving assessment: '' @ er) w2)))"

definition assessDishRisks_try :: "backend \<Rightarrow> dish list \<Rightarrow> browser_state \<times> world \<Rightarrow> (err + unit) \<times> (browser_state \<times> world)" where
  "assessDishRisks_try be dishList =
     await (on_world (remote AuthGetUser (auth_getUser be)))
       (\<lambda>usr.
          case usr of
            None \<Rightarrow> return ()
          | Some u \<Rightarrow>
              await (on_world (assess_loop be (user_id u) dishList Map.empty))
                (\<lambda>assessmentMap. set_state (\<lambda>st. st\<lparr>riskAssessments := assessmentMap\<rparr>)))"

definition assessDishRisks :: "backend \<Rightarrow> dish list \<Rightarrow> browser_state \<times> world \<Rightarrow> browser_state \<times> world" where
  "assessDishRisks be dishList s =
     (case assessDishRisks_try be dishList s of
        (Inr _, s') \<Rightarrow> s'
      | (Inl e, s') \<Rightarrow> log_error (''Error assessing dish risks: '' @ e) s')"




text \<open>\<open>assessment?.risk_classification\<close> of a dish: \<open>None\<close> is \<open>undefined\<close>.\<close>

definition stored_classification :: "browser_state \<Rightarrow> dish \<Rightarrow> string option" where
  "stored_classification st d = map_option risk_classification (riskAssessments st (dish_id d))"

definition keeps_dish :: "browser_state \<Rightarrow> dish \<Rightarrow> bool" where
  "keeps_dish st d =
     (if filterRisk st = ''safe'' then
        stored_classification st d = Some ''safe'' \<or> stored_classification st d = Some ''beneficial''
      else if filterRisk st = ''beneficial'' then
        stored_classification st d = Some ''beneficial''
      else stored_classification st d \<noteq> Some ''avoid'')"

definition filteredDishes :: "browser_state \<Rightarrow> dish list" where
  "filteredDishes st = filter (keeps_dish st) (dishes st)"

section \<open>FoodLookup: handleLookup, loadRecentLookups and the heading\<close>

record lookup_state =
  searchQuery :: string
  loading :: bool
  result :: "lookup_result option"
  recentLookups :: "lookup_result list"

text \<open>\<open>!searchQuery.trim()\<close>: the query is empty once white space is trimmed. Of the
  characters that \<open>trim\<close> removes, the ASCII ones are the space and the five control
  characters from tab to carriage return.\<close>

definition is_space :: "char \<Rightarrow> bool" where
  "is_space c = (c \<in> set [CHR '' '', CHR 0x09, CHR 0x0A, CHR 0x0B, CHR 0x0C, CHR 0x0D])"

definition blank :: "string \<Rightarrow> bool" where
  "blank q = list_all is_space q"

text \<open>The three blocks of \<open>handleLookup\<close> that assign \<open>classification\<close> and
  \<open>rationale\<close>, in the order of the source; each takes the pair of the two variables
  and returns it updated.\<close>

definition lookup_toxicity_check :: "ingredient \<Rightarrow> string \<Rightarrow> string \<times> string \<Rightarrow> string \<times> string" where
  "lookup_toxicity_check ing sp cr =
     (case toxicForSpecies ing sp of
        Some wn \<Rightarrow>
          (''avoid'',
           ''DANGER: '' @ ing_name ing @ '' is toxic to '' @ sp @ ''s. ''
             @ or_default (tw_effect wn) ''Can cause serious health issues.'')
      | None \<Rightarrow> cr)"

definition lookup_species_check :: "ingredient \<Rightarrow> string \<Rightarrow> string \<times> string \<Rightarrow> string \<times> string" where
  "lookup_species_check ing sp cr =
     (if fst cr = ''safe'' \<and> unsafe_for_species ing sp
      then (''avoid'', ing_name ing @ '' is not safe for '' @ sp @ '' consumption.'')
      else cr)"

fun join :: "string \<Rightarrow> string list \<Rightarrow> string" where
  "join sep [] = []"
| "join sep [x] = x"
| "join sep (x # y # ys) = x @ sep @ join sep (y # ys)"

definition avoidConditions :: "contraindication list \<Rightarrow> contraindication list" where
  "avoidConditions cs = filter (\<lambda>c. contraindication_type c = ''avoid'') cs"

definition cautionConditions :: "contraindication list \<Rightarrow> contraindication list" where
  "cautionConditions cs =
     filter (\<lambda>c. contraindication_type c = ''caution'' \<or> contraindication_type c = ''limit'') cs"

definition lookup_contraindication_check :: "ingredient \<Rightarrow> contraindication list option \<Rightarrow> string \<times> string \<Rightarrow> string \<times> string" where
  "lookup_contraindication_check ing cs cr =
     (case cs of
        None \<Rightarrow> cr
      | Some rows \<Rightarrow>
          if length rows > 0 then
            (if length (avoidConditions rows) > 0 then
               (''caution'',
                ''Use caution: '' @ ing_name ing @ '' should be avoided if you have ''
                  @ join '', '' (map condition_name (avoidConditions rows)) @ ''.'')
             else if length (cautionConditions rows) > 0 then
               (''caution'',
                ''Monitor intake: '' @ ing_name ing @ '' should be limited if you have ''
                  @ join '', '' (map condition_name (cautionConditions rows)) @ ''.'')
             else cr)
          else cr)"

definition generally_safe :: "string \<times> string" where
  "generally_safe = (''safe'', ''This food appears to be generally safe for consumption.'')"

definition not_in_database :: "string \<times> string" where
  "not_in_database =
     (''caution'',
      ''This food is not in our database yet. Please consult with a healthcare professional if you have specific dietary concerns.'')"

text \<open>\<open>loadRecentLookups\<close> has a \<open>try\<close> of its own, so nothing it throws reaches
  its caller. \<open>handleLookup\<close> starts it without \<open>await\<close> as the last statement of
  its \<open>try\<close> block; what is left of \<open>handleLookup\<close> after that point issues no
  remote call, writes no console line and touches only \<open>loading\<close>, so running
  \<open>loadRecentLookups\<close> to its end at the place of the call gives the same calls,
  console and state.\<close>

definition loadRecentLookups_try :: "backend \<Rightarrow> lookup_state \<times> world \<Rightarrow> (err + unit) \<times> (lookup_state \<times> world)" where
  "loadRecentLookups_try be =
     await (on_world (remote AuthGetUser (auth_getUser be)))
       (\<lambda>usr.
          case usr of
            None \<Rightarrow> return ()
          | Some _ \<Rightarrow>
              await (on_world (remote SelectLookupHistory (lookup_history_select be)))
                (\<lambda>data.
                   case data of
                     None \<Rightarrow> return ()
                   | Some rows \<Rightarrow> set_state (\<lambda>st. st\<lparr>recentLookups := rows\<rparr>)))"

definition loadRecentLookups :: "backend \<Rightarrow> lookup_state \<times> world \<Rightarrow> lookup_state \<times> world" where
  "loadRecentLookups be s =
     (case loadRecentLookups_try be s of
        (Inr _, s') \<Rightarrow> s'
      | (Inl e, s') \<Rightarrow> log_error (''Error loading recent lookups: '' @ e) s')"

text \<open>The first half of the \<open>try\<close> block of \<open>handleLookup\<close>: it ends with the
  values of \<open>classification\<close>, \<open>rationale\<close> and \<open>ingredients\<close>.\<close>

definition classify_food :: "backend \<Rightarrow> string \<Rightarrow> lookup_state \<times> world \<Rightarrow> (err + (string \<times> string) \<times> string list) \<times> (lookup_state \<times> world)" where
  "classify_food be q =
     await (on_world (remote (SearchIngredient (''%'' @ q @ ''%''))
                             (\<lambda>t. ingredients_search be t (''%'' @ q @ ''%''))))
       (\<lambda>ingredientData.
          case ingredientData of
            None \<Rightarrow> return (not_in_database, [])
          | Some ing \<Rightarrow>
              await (on_world (remote AuthGetUser (auth_getUser be)))
                (\<lambda>usr.
                   case usr of
                     None \<Rightarrow> return (generally_safe, [ing_name ing])
                   | Some u \<Rightarrow>
                       await (on_world (remote (SelectProfile (user_id u))
                                               (\<lambda>t. profiles_maybeSingle be t (user_id u))))
                         (\<lambda>prof.
                            await (on_world (remote (ListContraindications (ing_id ing) (speciesType_of prof))
                                      (\<lambda>t. contraindications_select be t (ing_id ing) (speciesType_of prof))))
                              (\<lambda>cs.
                                 return
                                   (lookup_contraindication_check ing cs
                                      (lookup_species_check ing (speciesType_of prof)
                                         (lookup_toxicity_check ing (speciesType_of prof) generally_safe)),
                                    [ing_name ing])))))"

definition lookupResult_of :: "string \<Rightarrow> (string \<times> string) \<times> string list \<Rightarrow> lookup_result" where
  "lookupResult_of q cri =
     \<lparr>food_name = q, safety_classification = fst (fst cri), rationale = snd (fst cri),
      ingredients_identified = snd cri\<rparr>"

text \<open>The second half, after \<open>setResult(lookupResult)\<close>: the lookup is added to the
  history of a signed-in user and the recent lookups are reloaded.\<close>

definition save_lookup :: "backend \<Rightarrow> lookup_result \<Rightarrow> lookup_state \<times> world \<Rightarrow> (err + unit) \<times> (lookup_state \<times> world)" where
  "save_lookup be lookupResult =
     await (on_world (remote AuthGetUser (auth_getUser be)))
       (\<lambda>usr.
          case usr of
            None \<Rightarrow> return ()
          | Some u \<Rightarrow>
              await (on_world (remote (InsertLookupHistory (user_id u) lookupResult)
                        (\<lambda>t. lookup_history_insert be t (user_id u) lookupResult)))
                (\<lambda>_ s. return () (loadRecentLookups be s)))"

definition handleLookup_try :: "backend \<Rightarrow> string \<Rightarrow> lookup_state \<times> world \<Rightarrow> (err + unit) \<times> (lookup_state \<times> world)" where
  "handleLookup_try be q =
     await (classify_food be q)
       (\<lambda>cri.
          await (set_state (\<lambda>st. st\<lparr>result := Some (lookupResult_of q cri)\<rparr>))
            (\<lambda>_. save_lookup be (lookupResult_of q cri)))"

text \<open>The whole handler: the guard, the two state updates before the \<open>try\<close>, the
  \<open>catch\<close> that logs, and the \<open>finally\<close> that clears \<open>loading\<close>.\<close>

definition handleLookup :: "backend \<Rightarrow> lookup_state \<times> world \<Rightarrow> lookup_state \<times> world" where
  "handleLookup be s =
     (if blank (searchQuery (fst s)) then s
      else
        (case handleLookup_try be (searchQuery (fst s))
                ((fst s)\<lparr>loading := True, result := None\<rparr>, snd s) of
           (Inr _, s') \<Rightarrow> ((fst s')\<lparr>loading := False\<rparr>, snd s')
         | (Inl e, s') \<Rightarrow>
             (case log_error (''Error looking up food: '' @ e) s' of
                s'' \<Rightarrow> ((fst s'')\<lparr>loading := False\<rparr>, snd s''))))"

text \<open>The text of the \<open>h3\<close> element: three conditional fragments side by side; a
  fragment whose test is false renders nothing.\<close>

definition heading :: "lookup_result \<Rightarrow> string" where
  "heading r =
     (if safety_classification r = ''safe'' then ''SAFE'' else [])
     @ (if safety_classification r = ''caution'' then ''USE CAUTION'' else [])
     @ (if safety_classification r = ''avoid'' then ''AVOID'' else [])"

section \<open>App: checkUser and handleSignOut\<close>





section \<open>Dashboard: loadProfile, loadBiomarkers, loadMealPlans, handleSave\<close>















section \<open>RestaurantBrowser: loadRestaurants\<close>




section \<open>RecipeBrowser: loadRecipes, loadUserRecipes, toggleFavorite\<close>









section \<open>GroceryShopping\<close>






















section \<open>MedicationTracker\<close>



















section \<open>Sample rows\<close>

text \<open>Rows in the shape of the sample data of the schema, and a service that answers
  from them whenever it is asked. \<open>Salmon\<close> and \<open>Blueberries\<close> are rows of the
  schema's own sample; the other three give a person something to avoid.\<close>

definition salmon :: ingredient where
  "salmon = \<lparr>ing_id = ''i-salmon'', ing_name = ''Salmon'',
     species_safe = Some [(''human'', True), (''dog'', True), (''cat'', True)],
     toxicity_warnings = Some []\<rparr>"

definition blueberries :: ingredient where
  "blueberries = \<lparr>ing_id = ''i-blueberries'', ing_name = ''Blueberries'',
     species_safe = Some [(''human'', True), (''dog'', True), (''cat'', True)],
     toxicity_warnings = Some []\<rparr>"

definition grapefruit :: ingredient where
  "grapefruit = \<lparr>ing_id = ''i-grapefruit'', ing_name = ''Grapefruit'',
     species_safe = Some [(''human'', True)], toxicity_warnings = Some []\<rparr>"

definition bitter_almond :: ingredient where
  "bitter_almond = \<lparr>ing_id = ''i-bitter-almond'', ing_name = ''Bitter Almond'',
     species_safe = Some [(''human'', False)],
     toxicity_warnings =
       Some [\<lparr>tw_species = Some [''human'', ''dog''], tw_effect = Some ''cyanide_poisoning''\<rparr>]\<rparr>"

definition raw_elderberry :: ingredient where
  "raw_elderberry = \<lparr>ing_id = ''i-raw-elderberry'', ing_name = ''Raw Elderberry'',
     species_safe = Some [(''human'', False)], toxicity_warnings = Some []\<rparr>"

definition sample_ingredients :: "(string \<times> ingredient) list" where
  "sample_ingredients =
     [(''Salmon'', salmon), (''Blueberries'', blueberries), (''Grapefruit'', grapefruit),
      (''Bitter Almond'', bitter_almond), (''Raw Elderberry'', raw_elderberry)]"

definition sample_searches :: "(string \<times> ingredient) list" where
  "sample_searches =
     [(''%salmon%'', salmon), (''%blueberries%'', blueberries), (''%grapefruit%'', grapefruit),
      (''%bitter almond%'', bitter_almond), (''%raw elderberry%'', raw_elderberry)]"

definition sample_contraindications :: "((string \<times> string) \<times> contraindication) list" where
  "sample_contraindications =
     [((''i-salmon'', ''human''),
       \<lparr>condition_name = ''Chronic Kidney Disease'', contraindication_type = ''limit'',
        contra_rationale = Some ''High phosphorus content should be limited in CKD patients''\<rparr>),
      ((''i-grapefruit'', ''human''),
       \<lparr>condition_name = ''Statin Therapy'', contraindication_type = ''avoid'',
        contra_rationale = Some ''Raises the blood level of the medication''\<rparr>),
      ((''i-bitter-almond'', ''human''),
       \<lparr>condition_name = ''Pregnancy'', contraindication_type = ''avoid'',
        contra_rationale = Some ''Releases cyanide''\<rparr>)]"

definition sample_backend :: backend where
  "sample_backend =
     \<lparr>auth_getUser = (\<lambda>t. Inr (Some \<lparr>user_id = ''u1''\<rparr>)),
      profiles_maybeSingle = (\<lambda>t uid. Inr (Some \<lparr>species_type = ''human''\<rparr>)),
      ingredients_search = (\<lambda>t pat. Inr (map_of sample_searches pat)),
      ingredients_maybeSingle = (\<lambda>t n. Inr (map_of sample_ingredients n)),
      contraindications_select =
        (\<lambda>t i sp. Inr (Some (map snd (filter (\<lambda>r. fst r = (i, sp)) sample_contraindications)))),
      contraindications_maybeSingle = (\<lambda>t i sp. Inr (map_of sample_contraindications (i, sp))),
      lookup_history_insert = (\<lambda>t uid r. Inr ()),
      lookup_history_select = (\<lambda>t. Inr (Some [])),
      dish_assessments_upsert = (\<lambda>t uid a. Inr None),
      dishes_select = (\<lambda>t r. Inr (Some [], None))\<rparr>"

text \<open>The same service with the network gone, and with only the history table
  unreachable.\<close>

definition offline_backend :: backend where
  "offline_backend =
     sample_backend\<lparr>ingredients_maybeSingle := (\<lambda>t n. Inl ''fetch failed''),
                    ingredients_search := (\<lambda>t pat. Inl ''fetch failed'')\<rparr>"


text \<open>The service at a later moment: the session has ended, and grapefruit has been
  marked unsafe for people.\<close>

definition recall_backend :: backend where
  "recall_backend =
     sample_backend\<lparr>auth_getUser := (\<lambda>t. Inr None),
                    ingredients_maybeSingle :=
                      (\<lambda>t n. Inr (map_of [(''Grapefruit'', grapefruit\<lparr>species_safe := Some [(''human'', False)]\<rparr>)] n))\<rparr>"

definition world0 :: world where
  "world0 = \<lparr>calls = [], console = []\<rparr>"









definition fruit_bowl :: dish where
  "fruit_bowl = \<lparr>dish_id = ''d1'', dish_name = ''Fruit Bowl'',
                 ingredients = [''Blueberries'', ''Dragon Fruit'']\<rparr>"

definition grapefruit_salad :: dish where
  "grapefruit_salad = \<lparr>dish_id = ''d2'', dish_name = ''Grapefruit Salad'',
                       ingredients = [''Grapefruit'']\<rparr>"

definition grapefruit_almond_tart :: dish where
  "grapefruit_almond_tart = \<lparr>dish_id = ''d3'', dish_name = ''Grapefruit Almond Tart'',
                             ingredients = [''Grapefruit'', ''Bitter Almond'']\<rparr>"

definition salmon_plate :: dish where
  "salmon_plate = \<lparr>dish_id = ''d4'', dish_name = ''Salmon Plate'',
                   ingredients = [''Salmon'', ''Blueberries'']\<rparr>"

definition query_state :: "string \<Rightarrow> lookup_state" where
  "query_state q = \<lparr>searchQuery = q, loading = False, result = None, recentLookups = []\<rparr>"

definition berry_cup :: dish where
  "berry_cup = \<lparr>dish_id = ''d5'', dish_name = ''Berry Cup'', ingredients = [''Blueberries'']\<rparr>"

text \<open>A menu of four dishes of which three have been assessed, under a filter.\<close>

definition menu_state :: "string \<Rightarrow> browser_state" where
  "menu_state f =
     \<lparr>dishes = [fruit_bowl, grapefruit_salad, grapefruit_almond_tart, salmon_plate],
      riskAssessments =
        [''d1'' \<mapsto> fst (calculateDishRisk sample_backend fruit_bowl ''u1'' world0),
         ''d2'' \<mapsto> fst (calculateDishRisk sample_backend grapefruit_salad ''u1'' world0),
         ''d3'' \<mapsto> fst (calculateDishRisk sample_backend grapefruit_almond_tart ''u1'' world0)],
      filterRisk = f\<rparr>"

definition shown_result :: "string \<Rightarrow> lookup_result" where
  "shown_result c =
     \<lparr>food_name = ''salmon'', safety_classification = c, rationale = '''',
      ingredients_identified = []\<rparr>"

text \<open>A lookup state that still holds an earlier result.\<close>

definition stale_state :: lookup_state where
  "stale_state =
     \<lparr>searchQuery = ''salmon'', loading = False, result = Some (shown_result ''avoid''),
      recentLookups = [shown_result ''safe'']\<rparr>"

section \<open>Predicates used in the statements and proofs\<close>

text \<open>What the loop of \<open>calculateDishRisk\<close> keeps true of its variables while it
  continues, and what holds of them after a \<open>break\<close>.\<close>

definition loop_vars_ok :: "risk_vars \<Rightarrow> bool" where
  "loop_vars_ok v =
     (riskClassification v = ''neutral'' \<and> riskScore v = 50 \<and> rv_contraindications v = []
      \<or> riskClassification v = ''caution'' \<and> (riskScore v = 60 \<or> riskScore v = 70))"

definition break_vars_ok :: "risk_vars \<Rightarrow> bool" where
  "break_vars_ok v =
     (riskClassification v = ''avoid'' \<and> (riskScore v = 90 \<or> riskScore v = 95))"

definition assessment_ok :: "dish_risk_assessment \<Rightarrow> bool" where
  "assessment_ok a =
     (risk_classification a = ''safe'' \<and> risk_score a = 20
      \<or> risk_classification a = ''neutral'' \<and> risk_score a = 50 \<and> contraindications a = []
      \<or> risk_classification a = ''caution'' \<and> (risk_score a = 60 \<or> risk_score a = 70)
      \<or> risk_classification a = ''avoid'' \<and> (risk_score a = 90 \<or> risk_score a = 95))"

text \<open>The three labels of a lookup result.\<close>

definition lookup_label :: "string \<Rightarrow> bool" where
  "lookup_label c = (c = ''safe'' \<or> c = ''caution'' \<or> c = ''avoid'')"

text \<open>Traces of remote calls: all resolved; or all resolved but the last, which was
  rejected with \<open>e\<close>. An operation \<open>stops at a rejection\<close> when the calls it adds
  are all resolved if it returns, and end with the rejected call if it throws, and it
  writes nothing to the console itself; \<open>wof\<close> reads the world off the state.\<close>

definition resolved_all :: "(request \<times> outcome) list \<Rightarrow> bool" where
  "resolved_all tr = list_all (\<lambda>c. snd c = Resolved) tr"






text \<open>Readings of a trace: the ingredient names fetched, the dish ids saved, and whether
  every save was resolved.\<close>

fun ingredient_of :: "request \<Rightarrow> string option" where
  "ingredient_of (SelectIngredient n) = Some n"
| "ingredient_of _ = None"

fun upserted :: "request \<Rightarrow> string option" where
  "upserted (UpsertDishAssessment u a) = Some (dra_dish_id a)"
| "upserted _ = None"

definition ingredient_requests :: "(request \<times> outcome) list \<Rightarrow> string list" where
  "ingredient_requests tr = List.map_filter (\<lambda>c. ingredient_of (fst c)) tr"

definition upsert_requests :: "(request \<times> outcome) list \<Rightarrow> string list" where
  "upsert_requests tr = List.map_filter (\<lambda>c. upserted (fst c)) tr"

definition upserts_resolved :: "(request \<times> outcome) list \<Rightarrow> bool" where
  "upserts_resolved tr = list_all (\<lambda>c. upserted (fst c) = None \<or> snd c = Resolved) tr"

text \<open>An operation of a component is \<open>blind\<close> to the component state when what it
  returns and what it leaves of the world depend on the world it started in only; it
  \<open>grows\<close> the trace when it only adds calls.\<close>

definition ui_blind :: "('u \<times> world \<Rightarrow> (err + 'a) \<times> ('u \<times> world)) \<Rightarrow> bool" where
  "ui_blind m =
     (\<forall>u u' w. fst (m (u, w)) = fst (m (u', w)) \<and> snd (snd (m (u, w))) = snd (snd (m (u', w))))"

definition grows :: "('s \<Rightarrow> world) \<Rightarrow> ('s \<Rightarrow> 'r \<times> 's) \<Rightarrow> bool" where
  "grows wof m = (\<forall>s. \<exists>tr. calls (wof (snd (m s))) = calls (wof s) @ tr)"




text \<open>The assessments that a trace saved, by dish id, in the order of the saves.\<close>

fun saved :: "request \<Rightarrow> (string \<times> dish_risk_assessment) option" where
  "saved (UpsertDishAssessment u a) = Some (dra_dish_id a, a)"
| "saved _ = None"

definition saved_assessments :: "(request \<times> outcome) list \<Rightarrow> (string \<times> dish_risk_assessment) list" where
  "saved_assessments tr = List.map_filter (\<lambda>c. saved (fst c)) tr"

text \<open>
  Failed calls and the console. The \<open>failures\<close> of a trace are the errors of its
  rejected and failed calls, in order; they are \<open>logged_in\<close> a list of console lines
  when each has a line of its own that ends with it, in the same order. A trace is
  \<open>quiet\<close> for a set of requests when none of its calls with such a request was
  rejected or failed.

  An operation with the \<open>try\<close> block \<open>body\<close> and the final world \<open>fin\<close> has its
  errors \<open>caught_and_logged\<close> when, from every state: it only adds calls and lines;
  the error of every call that was rejected or failed has its line; no call of its own
  before the last one was rejected or failed, that is, it issues nothing after such a
  call; and whatever the \<open>try\<close> block throws, the operation issues no further call
  and writes as its last line the text of its \<open>catch\<close> with the error.
\<close>

fun failure_of :: "outcome \<Rightarrow> err option" where
  "failure_of (Rejected e) = Some e"
| "failure_of (Failed e) = Some e"
| "failure_of Resolved = None"

definition failures :: "(request \<times> outcome) list \<Rightarrow> err list" where
  "failures tr = List.map_filter (\<lambda>c. failure_of (snd c)) tr"

definition logged_in :: "err list \<Rightarrow> string list \<Rightarrow> bool" where
  "logged_in es ls = list_emb (\<lambda>e l. suffix e l) es ls"

definition quiet :: "(request \<Rightarrow> bool) \<Rightarrow> (request \<times> outcome) list \<Rightarrow> bool" where
  "quiet own tr = list_all (\<lambda>c. own (fst c) \<longrightarrow> failure_of (snd c) = None) tr"





text \<open>The invariant of the proofs. A step is \<open>disciplined\<close> when it adds calls and
  lines such that every failure has its line, the error it throws counting as a line
  still to be written, and such that the calls in its \<open>scope\<close> are quiet: all of them
  (\<open>Foreign\<close>), all but a last one that made the step throw (\<open>Strict\<close>), or all but
  the last (\<open>Loose\<close>).\<close>

datatype mode = Foreign | Strict | Loose

definition pending :: "err + 'a \<Rightarrow> string list" where
  "pending r = (case r of Inl e \<Rightarrow> [e] | Inr _ \<Rightarrow> [])"

definition scope :: "mode \<Rightarrow> err + 'a \<Rightarrow> (request \<times> outcome) list \<Rightarrow> (request \<times> outcome) list" where
  "scope md r tr =
     (case md of
        Foreign \<Rightarrow> tr
      | Strict \<Rightarrow> (case r of Inl _ \<Rightarrow> butlast tr | Inr _ \<Rightarrow> tr)
      | Loose \<Rightarrow> butlast tr)"


section \<open>Properties of the assessment of a dish\<close>

lemma await_Inr:
  "await m k s = (Inr y, s'') \<longleftrightarrow> (\<exists>x s'. m s = (Inr x, s') \<and> k x s' = (Inr y, s''))"
  by (auto simp: await_def split: prod.splits sum.splits)

lemma contraindication_branch_ok:
  "loop_vars_ok v \<Longrightarrow> loop_vars_ok (contraindication_branch ing c v)"
  by (auto simp: loop_vars_ok_def contraindication_branch_def split: option.splits)

lemma toxic_branch_ok: "break_vars_ok (toxic_branch ing sp wn v)"
  by (simp add: break_vars_ok_def toxic_branch_def)

lemma unsafe_branch_ok: "break_vars_ok (unsafe_branch ing sp v)"
  by (simp add: break_vars_ok_def unsafe_branch_def)

lemma ingredient_step_ok:
  assumes "ingredient_step be sp n v w = (Inr (fl, v'), w')" and "loop_vars_ok v"
  shows "(fl = Continue \<and> loop_vars_ok v') \<or> (fl = Break \<and> break_vars_ok v')"
  using assms
  unfolding ingredient_step_def await_def return_def
  by (auto simp: toxic_branch_ok unsafe_branch_ok contraindication_branch_ok
        split: prod.splits sum.splits option.splits if_splits)

lemma ingredient_loop_ok:
  "ingredient_loop be sp ns v w = (Inr v', w') \<Longrightarrow> loop_vars_ok v \<Longrightarrow>
     loop_vars_ok v' \<or> break_vars_ok v'"
proof (induction ns arbitrary: v w)
  case Nil
  then show ?case by simp
next
  case (Cons n ns)
  show ?case
  proof (cases "ingredient_step be sp n v w")
    case (Pair r w1)
    show ?thesis
    proof (cases r)
      case (Inl e)
      with Pair Cons.prems show ?thesis by simp
    next
      case (Inr fv)
      obtain fl v1 where fv: "fv = (fl, v1)" by (cases fv)
      from ingredient_step_ok[of be sp n v w fl v1 w1] Pair Inr fv Cons.prems(2)
      have ok: "(fl = Continue \<and> loop_vars_ok v1) \<or> (fl = Break \<and> break_vars_ok v1)" by simp
      show ?thesis
      proof (cases fl)
        case Continue
        with ok have "loop_vars_ok v1" by simp
        moreover from Cons.prems(1) Pair Inr fv Continue
        have "ingredient_loop be sp ns v1 w1 = (Inr v', w')" by simp
        ultimately show ?thesis using Cons.IH by blast
      next
        case Break
        with ok have "break_vars_ok v1" by simp
        moreover from Cons.prems(1) Pair Inr fv Break have "v' = v1" by simp
        ultimately show ?thesis by simp
      qed
    qed
  qed
qed

lemma initial_risk_vars_ok: "loop_vars_ok initial_risk_vars"
  by (simp add: loop_vars_ok_def initial_risk_vars_def)

lemma default_safe_ok:
  "loop_vars_ok v \<or> break_vars_ok v \<Longrightarrow> assessment_ok (assessment_of d (default_safe v))"
  by (auto simp: loop_vars_ok_def break_vars_ok_def assessment_ok_def assessment_of_def default_safe_def)

lemma calculateDishRisk_try_ok:
  "calculateDishRisk_try be d userId w = (Inr a, w') \<Longrightarrow> assessment_ok a"
  by (auto simp: calculateDishRisk_try_def await_Inr return_def
      dest!: ingredient_loop_ok[OF _ initial_risk_vars_ok] intro: default_safe_ok)

lemma calculateDishRisk_ok: "assessment_ok (fst (calculateDishRisk be d userId w))"
proof (cases "calculateDishRisk_try be d userId w")
  case (Pair r w')
  show ?thesis
  proof (cases r)
    case (Inl e)
    with Pair show ?thesis by (simp add: calculateDishRisk_def assessment_ok_def unable_to_assess_def)
  next
    case (Inr a)
    with Pair calculateDishRisk_try_ok[of be d userId w a w'] show ?thesis
      by (simp add: calculateDishRisk_def)
  qed
qed

text \<open>
  Claim C4. Whatever the dish and whatever the remote service answers, the assessment
  that \<open>calculateDishRisk\<close> returns has a score among 20, 50, 60, 70, 90 and 95 (so
  between 0 and 100); the classification \<open>avoid\<close> comes with a score of at least 90,
  \<open>safe\<close> with 20 and \<open>neutral\<close> with 50; and \<open>beneficial\<close>, which the result
  type allows, is never returned.
\<close>

theorem calculateDishRisk_score_table:
  "risk_score (fst (calculateDishRisk be d userId w)) \<in> {20, 50, 60, 70, 90, 95}
   \<and> 0 \<le> risk_score (fst (calculateDishRisk be d userId w))
   \<and> risk_score (fst (calculateDishRisk be d userId w)) \<le> 100
   \<and> (risk_classification (fst (calculateDishRisk be d userId w)) = ''avoid''
        \<longrightarrow> 90 \<le> risk_score (fst (calculateDishRisk be d userId w)))
   \<and> (risk_classification (fst (calculateDishRisk be d userId w)) = ''safe''
        \<longrightarrow> risk_score (fst (calculateDishRisk be d userId w)) = 20)
   \<and> (risk_classification (fst (calculateDishRisk be d userId w)) = ''neutral''
        \<longrightarrow> risk_score (fst (calculateDishRisk be d userId w)) = 50)
   \<and> risk_classification (fst (calculateDishRisk be d userId w)) \<noteq> ''beneficial''"
  using calculateDishRisk_ok[of be d userId w]
  by (auto simp: assessment_ok_def)

theorem calculateDishRisk_score_table_witness:
  "risk_classification (fst (calculateDishRisk sample_backend grapefruit_almond_tart ''u1'' world0)) = ''avoid''
   \<and> 90 \<le> risk_score (fst (calculateDishRisk sample_backend grapefruit_almond_tart ''u1'' world0))
   \<and> risk_classification (fst (calculateDishRisk sample_backend fruit_bowl ''u1'' world0)) = ''safe''
   \<and> risk_score (fst (calculateDishRisk sample_backend fruit_bowl ''u1'' world0)) = 20
   \<and> risk_classification (fst (calculateDishRisk offline_backend salmon_plate ''u1'' world0)) = ''neutral''
   \<and> risk_score (fst (calculateDishRisk offline_backend salmon_plate ''u1'' world0)) = 50"
proof -
  have a: "risk_classification (fst (calculateDishRisk sample_backend grapefruit_almond_tart ''u1'' world0)) = ''avoid''"
    by code_simp
  have b: "risk_classification (fst (calculateDishRisk sample_backend fruit_bowl ''u1'' world0)) = ''safe''"
    by code_simp
  have c: "risk_classification (fst (calculateDishRisk offline_backend salmon_plate ''u1'' world0)) = ''neutral''"
    by code_simp
  from a b c
    calculateDishRisk_score_table [of sample_backend grapefruit_almond_tart "''u1''" world0]
    calculateDishRisk_score_table [of sample_backend fruit_bowl "''u1''" world0]
    calculateDishRisk_score_table [of offline_backend salmon_plate "''u1''" world0]
  show ?thesis by blast
qed

section \<open>Properties of the dish filter and of the heading\<close>

text \<open>
  Claim C7. Under every setting of the risk filter, a dish whose stored assessment is
  classified \<open>avoid\<close> is left out of \<open>filteredDishes\<close>, the setting \<open>all\<close>
  included; and under the setting \<open>safe\<close> a dish is listed exactly when it is one
  of the loaded dishes and its stored assessment is \<open>safe\<close> or \<open>beneficial\<close>.
\<close>

theorem filteredDishes_excludes_avoid:
  "(\<forall>d a. riskAssessments st (dish_id d) = Some a \<and> risk_classification a = ''avoid''
        \<longrightarrow> d \<notin> set (filteredDishes st))
   \<and> (filterRisk st = ''safe'' \<longrightarrow>
        (\<forall>d. d \<in> set (filteredDishes st) \<longleftrightarrow>
           d \<in> set (dishes st) \<and>
           (\<exists>a. riskAssessments st (dish_id d) = Some a \<and>
                (risk_classification a = ''safe'' \<or> risk_classification a = ''beneficial''))))"
  by (auto simp: filteredDishes_def keeps_dish_def stored_classification_def)

theorem filteredDishes_excludes_avoid_witness:
  "riskAssessments (menu_state ''all'') (dish_id grapefruit_almond_tart)
     = Some (fst (calculateDishRisk sample_backend grapefruit_almond_tart ''u1'' world0))
   \<and> risk_classification (fst (calculateDishRisk sample_backend grapefruit_almond_tart ''u1'' world0)) = ''avoid''
   \<and> grapefruit_almond_tart \<notin> set (filteredDishes (menu_state ''all''))
   \<and> filterRisk (menu_state ''safe'') = ''safe''
   \<and> fruit_bowl \<in> set (filteredDishes (menu_state ''safe''))"
proof -
  have a: "riskAssessments (menu_state ''all'') (dish_id grapefruit_almond_tart)
     = Some (fst (calculateDishRisk sample_backend grapefruit_almond_tart ''u1'' world0))"
    by (simp add: menu_state_def grapefruit_almond_tart_def)
  have b: "risk_classification (fst (calculateDishRisk sample_backend grapefruit_almond_tart ''u1'' world0)) = ''avoid''"
    by code_simp
  have c: "filterRisk (menu_state ''safe'') = ''safe''"
    by (simp add: menu_state_def)
  have d: "fruit_bowl \<in> set (dishes (menu_state ''safe''))"
    by (simp add: menu_state_def)
  have e: "riskAssessments (menu_state ''safe'') (dish_id fruit_bowl)
     = Some (fst (calculateDishRisk sample_backend fruit_bowl ''u1'' world0))"
    by (simp add: menu_state_def fruit_bowl_def)
  have f: "risk_classification (fst (calculateDishRisk sample_backend fruit_bowl ''u1'' world0)) = ''safe''"
    by code_simp
  from a b filteredDishes_excludes_avoid [of "menu_state ''all''"]
  have g: "grapefruit_almond_tart \<notin> set (filteredDishes (menu_state ''all''))"
    by blast
  from c d e f filteredDishes_excludes_avoid [of "menu_state ''safe''"]
  have h: "fruit_bowl \<in> set (filteredDishes (menu_state ''safe''))"
    by blast
  from a b c g h show ?thesis by simp
qed

text \<open>
  Claim C8. The heading rendered for a lookup result depends on its
  \<open>safety_classification\<close> only: it reads \<open>SAFE\<close> for \<open>safe\<close>,
  \<open>USE CAUTION\<close> for \<open>caution\<close> and \<open>AVOID\<close> for \<open>avoid\<close>, and two
  results with the same classification have the same heading.
\<close>

theorem heading_by_classification:
  "(safety_classification r = ''safe'' \<longrightarrow> heading r = ''SAFE'')
   \<and> (safety_classification r = ''caution'' \<longrightarrow> heading r = ''USE CAUTION'')
   \<and> (safety_classification r = ''avoid'' \<longrightarrow> heading r = ''AVOID'')
   \<and> (safety_classification r = safety_classification r' \<longrightarrow> heading r = heading r')"
  by (simp add: heading_def)

theorem heading_by_classification_witness:
  "safety_classification (shown_result ''safe'') = ''safe''
   \<and> heading (shown_result ''safe'') = ''SAFE''
   \<and> safety_classification (shown_result ''caution'') = ''caution''
   \<and> heading (shown_result ''caution'') = ''USE CAUTION''
   \<and> safety_classification (shown_result ''avoid'') = ''avoid''
   \<and> heading (shown_result ''avoid'') = ''AVOID''
   \<and> safety_classification (shown_result ''avoid'')
       = safety_classification ((shown_result ''avoid'')\<lparr>food_name := ''onion''\<rparr>)
   \<and> heading (shown_result ''avoid'') = heading ((shown_result ''avoid'')\<lparr>food_name := ''onion''\<rparr>)"
proof -
  have a: "safety_classification (shown_result ''safe'') = ''safe''"
    and b: "safety_classification (shown_result ''caution'') = ''caution''"
    and c: "safety_classification (shown_result ''avoid'') = ''avoid''"
    and d: "safety_classification (shown_result ''avoid'')
       = safety_classification ((shown_result ''avoid'')\<lparr>food_name := ''onion''\<rparr>)"
    by (simp_all add: shown_result_def)
  from a b c d
    heading_by_classification [of "shown_result ''safe''" "shown_result ''safe''"]
    heading_by_classification [of "shown_result ''caution''" "shown_result ''caution''"]
    heading_by_classification [of "shown_result ''avoid''" "(shown_result ''avoid'')\<lparr>food_name := ''onion''\<rparr>"]
  show ?thesis by blast
qed

section \<open>Properties of the food lookup\<close>

lemma on_world_remote:
  "on_world (remote rq f) s =
     (f (length (calls (snd s))),
      (fst s, (snd s)\<lparr>calls := calls (snd s) @ [(rq, outcome_of (f (length (calls (snd s)))))]\<rparr>))"
  by (simp add: on_world_def remote_def Let_def)

lemma classify_food_fst: "classify_food be q s = (r, s') \<Longrightarrow> fst s' = fst s"
  unfolding classify_food_def await_def return_def on_world_remote
  by (auto split: sum.splits option.splits prod.splits)

lemma loadRecentLookups_result: "result (fst (loadRecentLookups be s)) = result (fst s)"
  unfolding loadRecentLookups_def loadRecentLookups_try_def await_def return_def on_world_remote
    set_state_def log_error_def
  by (auto split: sum.splits option.splits prod.splits)

lemma save_lookup_result: "result (fst (snd (save_lookup be lr s))) = result (fst s)"
  unfolding save_lookup_def await_def return_def on_world_remote
  by (auto simp: loadRecentLookups_result split: sum.splits option.splits prod.splits)

lemma handleLookup_try_stores:
  assumes "classify_food be q s = (Inr cri, s1)"
  shows "result (fst (snd (handleLookup_try be q s))) = Some (lookupResult_of q cri)"
  using assms
  by (simp add: handleLookup_try_def await_def set_state_def save_lookup_result split: prod.splits sum.splits)

lemma handleLookup_try_fails_early:
  assumes "classify_food be q s = (Inl e, s1)"
  shows "handleLookup_try be q s = (Inl e, s1)"
  using assms by (simp add: handleLookup_try_def await_def)


lemma handleLookup_result:
  assumes "\<not> blank (searchQuery (fst s))"
  shows "result (fst (handleLookup be s)) =
     (case fst (classify_food be (searchQuery (fst s))
                  ((fst s)\<lparr>loading := True, result := None\<rparr>, snd s)) of
        Inl e \<Rightarrow> None
      | Inr cri \<Rightarrow> Some (lookupResult_of (searchQuery (fst s)) cri))"
proof -
  let ?s0 = "((fst s)\<lparr>loading := True, result := None\<rparr>, snd s)"
  let ?q = "searchQuery (fst s)"
  obtain r s1 where c: "classify_food be ?q ?s0 = (r, s1)" by (cases "classify_food be ?q ?s0")
  have res: "result (fst (handleLookup be s)) = result (fst (snd (handleLookup_try be ?q ?s0)))"
    using assms by (simp add: handleLookup_def log_error_def split: prod.splits sum.splits)
  show ?thesis
  proof (cases r)
    case (Inl e)
    with c have "handleLookup_try be ?q ?s0 = (Inl e, s1)" by (simp add: handleLookup_try_fails_early)
    moreover from c have "fst s1 = fst ?s0" by (rule classify_food_fst)
    ultimately show ?thesis using res c Inl by simp
  next
    case (Inr cri)
    with c handleLookup_try_stores[of be ?q ?s0 cri s1] res show ?thesis by simp
  qed
qed

lemma classify_food_not_found:
  assumes "ingredients_search be (length (calls (snd s))) (''%'' @ q @ ''%'') = Inr None"
  shows "fst (classify_food be q s) = Inr (not_in_database, [])"
  using assms by (simp add: classify_food_def await_def return_def on_world_remote)

lemma classify_food_found:
  assumes "ingredients_search be (length (calls (snd s))) (''%'' @ q @ ''%'') = Inr (Some ing)"
    and "auth_getUser be (length (calls (snd s)) + 1) = Inr (Some usr)"
    and "profiles_maybeSingle be (length (calls (snd s)) + 2) (user_id usr) = Inr prof"
    and "contraindications_select be (length (calls (snd s)) + 3) (ing_id ing) (speciesType_of prof) = Inr cs"
  shows "fst (classify_food be q s) =
     Inr (lookup_contraindication_check ing cs
            (lookup_species_check ing (speciesType_of prof)
               (lookup_toxicity_check ing (speciesType_of prof) generally_safe)),
          [ing_name ing])"
  using assms
  by (simp add: classify_food_def await_def return_def on_world_remote numeral_3_eq_3 numeral_2_eq_2)

lemma lookup_checks_label:
  "lookup_label (fst cr) \<Longrightarrow> lookup_label (fst (lookup_toxicity_check ing sp cr))"
  "lookup_label (fst cr) \<Longrightarrow> lookup_label (fst (lookup_species_check ing sp cr))"
  "lookup_label (fst cr) \<Longrightarrow> lookup_label (fst (lookup_contraindication_check ing cs cr))"
  by (auto simp: lookup_label_def lookup_toxicity_check_def lookup_species_check_def
        lookup_contraindication_check_def split: option.splits)

lemma classify_food_label:
  assumes "classify_food be q s = (Inr cri, s1)"
  shows "lookup_label (fst (fst cri))"
proof -
  have g: "lookup_label (fst generally_safe)" and n: "lookup_label (fst not_in_database)"
    by (simp_all add: lookup_label_def generally_safe_def not_in_database_def)
  from assms show ?thesis
    unfolding classify_food_def await_def return_def on_world_remote
    by (auto simp: g n lookup_checks_label split: sum.splits option.splits prod.splits)
qed

text \<open>
  Claim C6, as amended. For every search query that is not blank (not empty once white
  space is trimmed) and whose ingredient search resolves with no row, \<open>handleLookup\<close>
  stores a result classified \<open>caution\<close>, with the rationale that the food is not in
  the database and with no ingredient identified.
\<close>

theorem handleLookup_not_in_database:
  assumes "\<not> blank (searchQuery (fst s))"
    and "ingredients_search be (length (calls (snd s))) (''%'' @ searchQuery (fst s) @ ''%'') = Inr None"
  shows "result (fst (handleLookup be s)) =
     Some \<lparr>food_name = searchQuery (fst s), safety_classification = ''caution'',
           rationale = ''This food is not in our database yet. Please consult with a healthcare professional if you have specific dietary concerns.'',
           ingredients_identified = []\<rparr>"
  using assms
    classify_food_not_found [of be "((fst s)\<lparr>loading := True, result := None\<rparr>, snd s)" "searchQuery (fst s)"]
  by (simp add: handleLookup_result lookupResult_of_def not_in_database_def)

theorem handleLookup_not_in_database_witness:
  "\<not> blank (searchQuery (fst (query_state ''kiwi'', world0)))
   \<and> ingredients_search sample_backend (length (calls (snd (query_state ''kiwi'', world0))))
        (''%'' @ searchQuery (fst (query_state ''kiwi'', world0)) @ ''%'') = Inr None
   \<and> result (fst (handleLookup sample_backend (query_state ''kiwi'', world0))) =
     Some \<lparr>food_name = ''kiwi'', safety_classification = ''caution'',
           rationale = ''This food is not in our database yet. Please consult with a healthcare professional if you have specific dietary concerns.'',
           ingredients_identified = []\<rparr>"
proof -
  have a: "\<not> blank (searchQuery (fst (query_state ''kiwi'', world0)))"
    by (simp add: query_state_def blank_def is_space_def)
  have b: "ingredients_search sample_backend (length (calls (snd (query_state ''kiwi'', world0))))
        (''%'' @ searchQuery (fst (query_state ''kiwi'', world0)) @ ''%'') = Inr None"
    by (simp add: sample_backend_def sample_searches_def query_state_def)
  from handleLookup_not_in_database [OF a b] a b show ?thesis
    by (simp add: query_state_def)
qed

text \<open>
  The claim as first stated asks this of every non-empty query. A query of one space is
  not empty and its search finds no row, yet the guard at the head of \<open>handleLookup\<close>
  returns before anything is classified: no result is stored.
\<close>

theorem handleLookup_blank_query_counterexample:
  "searchQuery (query_state '' '') \<noteq> []
   \<and> ingredients_search sample_backend (length (calls world0))
        (''%'' @ searchQuery (query_state '' '') @ ''%'') = Inr None
   \<and> result (fst (handleLookup sample_backend (query_state '' '', world0))) = None"
  by (simp add: query_state_def sample_backend_def sample_searches_def handleLookup_def blank_def
      is_space_def)

text \<open>
  Claim C3. Every result that \<open>handleLookup\<close> stores carries one of the labels
  \<open>safe\<close>, \<open>caution\<close>, \<open>avoid\<close>; and the assessment that
  \<open>calculateDishRisk\<close> returns, on the error path as on the normal one, carries one
  of \<open>safe\<close>, \<open>beneficial\<close>, \<open>neutral\<close>, \<open>caution\<close>, \<open>avoid\<close>.
\<close>

theorem classification_labels:
  "(\<forall>r. \<not> blank (searchQuery (fst s)) \<and> result (fst (handleLookup be s)) = Some r
        \<longrightarrow> safety_classification r \<in> {''safe'', ''caution'', ''avoid''})
   \<and> risk_classification (fst (calculateDishRisk be d userId w))
        \<in> {''safe'', ''beneficial'', ''neutral'', ''caution'', ''avoid''}"
proof -
  have "safety_classification r \<in> {''safe'', ''caution'', ''avoid''}"
    if nb: "\<not> blank (searchQuery (fst s))" and res: "result (fst (handleLookup be s)) = Some r" for r
  proof -
    let ?s0 = "((fst s)\<lparr>loading := True, result := None\<rparr>, snd s)"
    let ?q = "searchQuery (fst s)"
    obtain x s1 where c: "classify_food be ?q ?s0 = (x, s1)" by (cases "classify_food be ?q ?s0")
    from res handleLookup_result[OF nb, of be] c obtain cri where
      x: "x = Inr cri" and r: "r = lookupResult_of ?q cri"
      by (cases x) auto
    from c x have "lookup_label (fst (fst cri))" by (auto intro: classify_food_label)
    with r show ?thesis by (auto simp: lookup_label_def lookupResult_of_def)
  qed
  moreover have "risk_classification (fst (calculateDishRisk be d userId w))
        \<in> {''safe'', ''beneficial'', ''neutral'', ''caution'', ''avoid''}"
    using calculateDishRisk_ok[of be d userId w] by (auto simp: assessment_ok_def)
  ultimately show ?thesis by blast
qed

theorem classification_labels_witness:
  "\<not> blank (searchQuery (fst (query_state ''salmon'', world0)))
   \<and> result (fst (handleLookup sample_backend (query_state ''salmon'', world0))) =
       Some \<lparr>food_name = ''salmon'', safety_classification = ''caution'',
             rationale = ''Monitor intake: Salmon should be limited if you have Chronic Kidney Disease.'',
             ingredients_identified = [''Salmon'']\<rparr>
   \<and> safety_classification
        \<lparr>food_name = ''salmon'', safety_classification = ''caution'',
         rationale = ''Monitor intake: Salmon should be limited if you have Chronic Kidney Disease.'',
         ingredients_identified = [''Salmon'']\<rparr> \<in> {''safe'', ''caution'', ''avoid''}
   \<and> risk_classification (fst (calculateDishRisk sample_backend salmon_plate ''u1'' world0))
        \<in> {''safe'', ''beneficial'', ''neutral'', ''caution'', ''avoid''}"
proof -
  have a: "\<not> blank (searchQuery (fst (query_state ''salmon'', world0)))"
    by (simp add: query_state_def blank_def is_space_def)
  have b: "result (fst (handleLookup sample_backend (query_state ''salmon'', world0))) =
       Some \<lparr>food_name = ''salmon'', safety_classification = ''caution'',
             rationale = ''Monitor intake: Salmon should be limited if you have Chronic Kidney Disease.'',
             ingredients_identified = [''Salmon'']\<rparr>"
    by code_simp
  from a b classification_labels [of "(query_state ''salmon'', world0)" sample_backend
      salmon_plate "''u1''" world0]
  show ?thesis by blast
qed

lemma remote_eq:
  "remote rq f w = (f (length (calls w)), w\<lparr>calls := calls w @ [(rq, outcome_of (f (length (calls w))))]\<rparr>)"
  by (simp add: remote_def Let_def)

lemma lookup_checks_fall_through:
  assumes "toxicForSpecies ing sp = None" and "\<not> unsafe_for_species ing sp"
    and "cs = None \<or> cs = Some []"
  shows "lookup_contraindication_check ing cs
           (lookup_species_check ing sp (lookup_toxicity_check ing sp generally_safe))
         = generally_safe"
  using assms
  by (auto simp: lookup_contraindication_check_def lookup_species_check_def lookup_toxicity_check_def)

lemma ingredient_step_falls_through:
  assumes "ingredients_maybeSingle be (length (calls w)) n = Inr (Some ing)"
    and "toxicForSpecies ing sp = None" and "\<not> unsafe_for_species ing sp"
    and "contraindications_maybeSingle be (Suc (length (calls w))) (ing_id ing) sp = Inr None"
  shows "fst (ingredient_step be sp n v w) = Inr (Continue, v)"
  using assms
  by (simp add: ingredient_step_def await_def return_def remote_eq contraindication_branch_def)

lemma ingredient_loop_falls_through:
  assumes "\<forall>n \<in> set ns. \<forall>t. \<exists>ing. ingredients_maybeSingle be t n = Inr (Some ing)
             \<and> toxicForSpecies ing sp = None \<and> \<not> unsafe_for_species ing sp
             \<and> (\<forall>t'. contraindications_maybeSingle be t' (ing_id ing) sp = Inr None)"
  shows "fst (ingredient_loop be sp ns v w) = Inr v"
  using assms
proof (induction ns arbitrary: w)
  case Nil
  show ?case by simp
next
  case (Cons n ns)
  from Cons.prems obtain ing where
    i: "ingredients_maybeSingle be (length (calls w)) n = Inr (Some ing)"
    and t: "toxicForSpecies ing sp = None" and u: "\<not> unsafe_for_species ing sp"
    and c: "contraindications_maybeSingle be (Suc (length (calls w))) (ing_id ing) sp = Inr None"
    by (metis list.set_intros(1))
  obtain r w1 where st: "ingredient_step be sp n v w = (r, w1)" by (cases "ingredient_step be sp n v w")
  with ingredient_step_falls_through[OF i t u c, of v] have r: "r = Inr (Continue, v)" by simp
  from Cons.prems have "fst (ingredient_loop be sp ns v w1) = Inr v"
    by (intro Cons.IH) simp
  with st r show ?case by simp
qed

text \<open>
  Claim C2. When the ingredient row is found, the user is signed in and the profile
  query resolves, no toxicity warning of the row lists the species of the profile, the
  species flag of the row is not false, and the contraindication query resolves with no
  row, \<open>handleLookup\<close> stores a result classified \<open>safe\<close>. When the profile
  query resolves and every ingredient of a dish is found with no warning for the
  species, no false flag and no contraindication row, whenever asked,
  \<open>calculateDishRisk\<close> returns the classification \<open>safe\<close> with score 20.
\<close>

theorem falls_through_to_safe:
  "(\<not> blank (searchQuery (fst s))
    \<and> ingredients_search be (length (calls (snd s))) (''%'' @ searchQuery (fst s) @ ''%'') = Inr (Some ing)
    \<and> auth_getUser be (length (calls (snd s)) + 1) = Inr (Some usr)
    \<and> profiles_maybeSingle be (length (calls (snd s)) + 2) (user_id usr) = Inr prof
    \<and> toxicForSpecies ing (speciesType_of prof) = None
    \<and> \<not> unsafe_for_species ing (speciesType_of prof)
    \<and> contraindications_select be (length (calls (snd s)) + 3) (ing_id ing) (speciesType_of prof) = Inr cs
    \<and> (cs = None \<or> cs = Some [])
    \<longrightarrow> (\<exists>r. result (fst (handleLookup be s)) = Some r \<and> safety_classification r = ''safe''))
   \<and> (profiles_maybeSingle be (length (calls w)) userId = Inr prof'
       \<and> (\<forall>n \<in> set (ingredients d). \<forall>t. \<exists>i.
             ingredients_maybeSingle be t n = Inr (Some i)
             \<and> toxicForSpecies i (speciesType_of prof') = None
             \<and> \<not> unsafe_for_species i (speciesType_of prof')
             \<and> (\<forall>t'. contraindications_maybeSingle be t' (ing_id i) (speciesType_of prof') = Inr None))
    \<longrightarrow> risk_classification (fst (calculateDishRisk be d userId w)) = ''safe''
        \<and> risk_score (fst (calculateDishRisk be d userId w)) = 20)"
proof (rule conjI; rule impI)
  assume h: "\<not> blank (searchQuery (fst s))
    \<and> ingredients_search be (length (calls (snd s))) (''%'' @ searchQuery (fst s) @ ''%'') = Inr (Some ing)
    \<and> auth_getUser be (length (calls (snd s)) + 1) = Inr (Some usr)
    \<and> profiles_maybeSingle be (length (calls (snd s)) + 2) (user_id usr) = Inr prof
    \<and> toxicForSpecies ing (speciesType_of prof) = None
    \<and> \<not> unsafe_for_species ing (speciesType_of prof)
    \<and> contraindications_select be (length (calls (snd s)) + 3) (ing_id ing) (speciesType_of prof) = Inr cs
    \<and> (cs = None \<or> cs = Some [])"
  let ?s0 = "((fst s)\<lparr>loading := True, result := None\<rparr>, snd s)"
  from h have "fst (classify_food be (searchQuery (fst s)) ?s0) =
     Inr (lookup_contraindication_check ing cs
            (lookup_species_check ing (speciesType_of prof)
               (lookup_toxicity_check ing (speciesType_of prof) generally_safe)),
          [ing_name ing])"
    using classify_food_found[of be ?s0 "searchQuery (fst s)" ing usr prof cs] by simp
  also from h have "\<dots> = Inr (generally_safe, [ing_name ing])"
    by (simp add: lookup_checks_fall_through)
  finally show "\<exists>r. result (fst (handleLookup be s)) = Some r \<and> safety_classification r = ''safe''"
    using h by (simp add: handleLookup_result lookupResult_of_def generally_safe_def)
next
  assume h: "profiles_maybeSingle be (length (calls w)) userId = Inr prof'
       \<and> (\<forall>n \<in> set (ingredients d). \<forall>t. \<exists>i.
             ingredients_maybeSingle be t n = Inr (Some i)
             \<and> toxicForSpecies i (speciesType_of prof') = None
             \<and> \<not> unsafe_for_species i (speciesType_of prof')
             \<and> (\<forall>t'. contraindications_maybeSingle be t' (ing_id i) (speciesType_of prof') = Inr None))"
  obtain x w1 where p0: "remote (SelectProfile userId) (\<lambda>t. profiles_maybeSingle be t userId) w = (x, w1)"
    by (cases "remote (SelectProfile userId) (\<lambda>t. profiles_maybeSingle be t userId) w")
  with h have p: "remote (SelectProfile userId) (\<lambda>t. profiles_maybeSingle be t userId) w = (Inr prof', w1)"
    by (auto simp: remote_eq)
  from h have l: "fst (ingredient_loop be (speciesType_of prof') (ingredients d) initial_risk_vars w1)
      = Inr initial_risk_vars"
    by (intro ingredient_loop_falls_through) simp
  obtain r w2 where lp: "ingredient_loop be (speciesType_of prof') (ingredients d) initial_risk_vars w1 = (r, w2)"
    by (cases "ingredient_loop be (speciesType_of prof') (ingredients d) initial_risk_vars w1")
  with l have r: "r = Inr initial_risk_vars" by simp
  have "fst (calculateDishRisk be d userId w) = assessment_of d (default_safe initial_risk_vars)"
    unfolding calculateDishRisk_def calculateDishRisk_try_def await_def return_def
    using p lp r by simp
  then show "risk_classification (fst (calculateDishRisk be d userId w)) = ''safe''
        \<and> risk_score (fst (calculateDishRisk be d userId w)) = 20"
    by (simp add: assessment_of_def default_safe_def initial_risk_vars_def)
qed

theorem falls_through_to_safe_witness:
  "\<not> blank (searchQuery (query_state ''blueberries''))
   \<and> ingredients_search sample_backend 0 ''%blueberries%'' = Inr (Some blueberries)
   \<and> toxicForSpecies blueberries ''human'' = None
   \<and> \<not> unsafe_for_species blueberries ''human''
   \<and> contraindications_select sample_backend 3 (ing_id blueberries) ''human'' = Inr (Some [])
   \<and> (\<exists>r. result (fst (handleLookup sample_backend (query_state ''blueberries'', world0))) = Some r
          \<and> safety_classification r = ''safe'')
   \<and> risk_classification (fst (calculateDishRisk sample_backend berry_cup ''u1'' world0)) = ''safe''
   \<and> risk_score (fst (calculateDishRisk sample_backend berry_cup ''u1'' world0)) = 20"
proof -
  have a: "\<not> blank (searchQuery (query_state ''blueberries''))"
    by (simp add: query_state_def blank_def is_space_def)
  have b: "ingredients_search sample_backend 0 ''%blueberries%'' = Inr (Some blueberries)"
    by (simp add: sample_backend_def sample_searches_def)
  have c: "toxicForSpecies blueberries ''human'' = None"
    by (simp add: toxicForSpecies_def blueberries_def)
  have d: "\<not> unsafe_for_species blueberries ''human''"
    by (simp add: unsafe_for_species_def blueberries_def)
  have e: "contraindications_select sample_backend t (ing_id blueberries) ''human'' = Inr (Some [])" for t
    by (simp add: sample_backend_def sample_contraindications_def blueberries_def)
  have f: "auth_getUser sample_backend t = Inr (Some \<lparr>user_id = ''u1''\<rparr>)"
    and g: "profiles_maybeSingle sample_backend t ''u1'' = Inr (Some \<lparr>species_type = ''human''\<rparr>)" for t
    by (simp_all add: sample_backend_def)
  have sp: "speciesType_of (Some \<lparr>species_type = ''human''\<rparr>) = ''human''"
    by (simp add: speciesType_of_def)
  have h: "\<forall>n \<in> set (ingredients berry_cup). \<forall>t. \<exists>i.
             ingredients_maybeSingle sample_backend t n = Inr (Some i)
             \<and> toxicForSpecies i ''human'' = None
             \<and> \<not> unsafe_for_species i ''human''
             \<and> (\<forall>t'. contraindications_maybeSingle sample_backend t' (ing_id i) ''human'' = Inr None)"
    using c d
    by (simp add: berry_cup_def sample_backend_def sample_ingredients_def sample_contraindications_def
        blueberries_def)
  from a b c d e f g h sp
    falls_through_to_safe [of "(query_state ''blueberries'', world0)" sample_backend blueberries
      "\<lparr>user_id = ''u1''\<rparr>" "Some \<lparr>species_type = ''human''\<rparr>" "Some []" world0 "''u1''"
      "Some \<lparr>species_type = ''human''\<rparr>" berry_cup]
  show ?thesis
    by (simp add: world0_def query_state_def)
qed

section \<open>Rejected calls\<close>

lemma resolved_all_simps [simp]:
  "resolved_all []"
  "resolved_all (tr @ tr') \<longleftrightarrow> resolved_all tr \<and> resolved_all tr'"
  "resolved_all [c] \<longleftrightarrow> snd c = Resolved"
  by (auto simp: resolved_all_def)








subsection \<open>Failures and console lines\<close>

lemma failures_simps [simp]:
  "failures [] = []"
  "failures (tr @ tr') = failures tr @ failures tr'"
  "failures (c # tr) = (case failure_of (snd c) of None \<Rightarrow> [] | Some e \<Rightarrow> [e]) @ failures tr"
  by (auto simp: failures_def List.map_filter_def split: option.splits)

lemma quiet_simps [simp]:
  "quiet own []"
  "quiet own (tr @ tr') \<longleftrightarrow> quiet own tr \<and> quiet own tr'"
  "quiet own (c # tr) \<longleftrightarrow> (own (fst c) \<longrightarrow> failure_of (snd c) = None) \<and> quiet own tr"
  by (auto simp: quiet_def)



lemma logged_in_Nil [simp]: "logged_in [] ls"
  by (simp add: logged_in_def)


lemma logged_in_single [simp]: "logged_in [e] [e]"
  by (simp add: logged_in_def)



lemma scope_simps [simp]:
  "scope Foreign r tr = tr"
  "scope Strict (Inl e) tr = butlast tr"
  "scope Strict (Inr x) tr = tr"
  "scope Loose r tr = butlast tr"
  by (simp_all add: scope_def)

lemma pending_simps [simp]: "pending (Inl e) = [e]" "pending (Inr x) = []"
  by (simp_all add: pending_def)



























subsection \<open>App and Dashboard\<close>












subsection \<open>Restaurants and recipes\<close>











subsection \<open>Grocery shopping\<close>













subsection \<open>Medications\<close>




















subsection \<open>The assessment of dishes\<close>

















subsection \<open>The food lookup\<close>








subsection \<open>The statement\<close>







section \<open>The order of the checks\<close>












section \<open>The order of remote calls\<close>

lemma requests_simps [simp]:
  "ingredient_requests [] = []"
  "ingredient_requests (tr @ tr') = ingredient_requests tr @ ingredient_requests tr'"
  "ingredient_requests (c # tr) = (case ingredient_of (fst c) of None \<Rightarrow> [] | Some n \<Rightarrow> [n]) @ ingredient_requests tr"
  "upsert_requests [] = []"
  "upsert_requests (tr @ tr') = upsert_requests tr @ upsert_requests tr'"
  "upsert_requests (c # tr) = (case upserted (fst c) of None \<Rightarrow> [] | Some n \<Rightarrow> [n]) @ upsert_requests tr"
  "upserts_resolved []"
  "upserts_resolved (tr @ tr') \<longleftrightarrow> upserts_resolved tr \<and> upserts_resolved tr'"
  "upserts_resolved (c # tr) \<longleftrightarrow> (upserted (fst c) = None \<or> snd c = Resolved) \<and> upserts_resolved tr"
  by (auto simp: ingredient_requests_def upsert_requests_def upserts_resolved_def List.map_filter_def
      split: option.splits)

lemma ingredient_step_calls:
  assumes "ingredient_step be sp n v w = (r, w')"
  shows "\<exists>tr. calls w' = calls w @ tr \<and> ingredient_requests tr = [n] \<and> upsert_requests tr = []
              \<and> upserts_resolved tr"
  using assms unfolding ingredient_step_def await_def return_def remote_eq
  by (auto split: sum.splits option.splits if_splits)

lemma ingredient_loop_calls:
  assumes "ingredient_loop be sp ns v w = (r, w')"
  shows "\<exists>tr. calls w' = calls w @ tr \<and> prefix (ingredient_requests tr) ns
              \<and> upsert_requests tr = [] \<and> upserts_resolved tr
              \<and> (\<forall>v'. r = Inr v' \<and> loop_vars_ok v \<and> riskClassification v' \<noteq> ''avoid''
                    \<longrightarrow> ingredient_requests tr = ns)"
  using assms
proof (induction ns arbitrary: v w)
  case Nil
  then show ?case by simp
next
  case (Cons n ns)
  obtain r0 w0 where st: "ingredient_step be sp n v w = (r0, w0)"
    by (cases "ingredient_step be sp n v w")
  from ingredient_step_calls[OF st] obtain tr0 where
    t0: "calls w0 = calls w @ tr0" "ingredient_requests tr0 = [n]" "upsert_requests tr0 = []"
      "upserts_resolved tr0"
    by blast
  show ?case
  proof (cases r0)
    case (Inl e)
    with Cons.prems st have "r = Inl e" "w' = w0" by simp_all
    with t0 show ?thesis by (intro exI[of _ tr0]) simp
  next
    case (Inr fv)
    obtain fl v0 where fv: "fv = (fl, v0)" by (cases fv)
    show ?thesis
    proof (cases fl)
      case Break
      with Cons.prems st Inr fv have r: "r = Inr v0" "w' = w0" by simp_all
      have "loop_vars_ok v \<Longrightarrow> riskClassification v0 = ''avoid''"
        using ingredient_step_ok[of be sp n v w fl v0 w0] st Inr fv Break
        by (simp add: break_vars_ok_def)
      with t0 r show ?thesis by (intro exI[of _ tr0]) auto
    next
      case Continue
      with Cons.prems st Inr fv have l: "ingredient_loop be sp ns v0 w0 = (r, w')" by simp
      from Cons.IH[OF l] obtain tr1 where
        t1: "calls w' = calls w0 @ tr1" "prefix (ingredient_requests tr1) ns"
          "upsert_requests tr1 = []" "upserts_resolved tr1"
          "\<forall>v'. r = Inr v' \<and> loop_vars_ok v0 \<and> riskClassification v' \<noteq> ''avoid''
                    \<longrightarrow> ingredient_requests tr1 = ns"
        by blast
      have "loop_vars_ok v \<Longrightarrow> loop_vars_ok v0"
        using ingredient_step_ok[of be sp n v w fl v0 w0] st Inr fv Continue by simp
      with t0 t1 show ?thesis by (intro exI[of _ "tr0 @ tr1"]) auto
    qed
  qed
qed

lemma calculateDishRisk_dish_id: "dra_dish_id (fst (calculateDishRisk be d userId w)) = dish_id d"
  unfolding calculateDishRisk_def calculateDishRisk_try_def await_def return_def
  by (auto simp: unable_to_assess_def assessment_of_def split: prod.splits sum.splits)

lemma calculateDishRisk_calls:
  "\<exists>oc tr. calls (snd (calculateDishRisk be d userId w)) = calls w @ (SelectProfile userId, oc) # tr
       \<and> prefix (ingredient_requests tr) (ingredients d)
       \<and> upsert_requests tr = [] \<and> upserts_resolved tr
       \<and> (risk_classification (fst (calculateDishRisk be d userId w)) = ''safe''
            \<or> risk_classification (fst (calculateDishRisk be d userId w)) = ''caution''
          \<longrightarrow> ingredient_requests tr = ingredients d)"
proof -
  let ?p = "profiles_maybeSingle be (length (calls w)) userId"
  let ?w0 = "w\<lparr>calls := calls w @ [(SelectProfile userId, outcome_of ?p)]\<rparr>"
  show ?thesis
  proof (cases ?p)
    case (Inl e)
    then have "calculateDishRisk be d userId w
        = (unable_to_assess d, console_error (''Error calculating risk: '' @ e) ?w0)"
      by (simp add: calculateDishRisk_def calculateDishRisk_try_def await_def remote_eq)
    then show ?thesis
      by (intro exI[of _ "outcome_of ?p"] exI[of _ "[]"])
         (simp add: console_error_def unable_to_assess_def)
  next
    case (Inr prof)
    obtain r w' where l: "ingredient_loop be (speciesType_of prof) (ingredients d) initial_risk_vars ?w0 = (r, w')"
      by (cases "ingredient_loop be (speciesType_of prof) (ingredients d) initial_risk_vars ?w0")
    from ingredient_loop_calls[OF l] obtain tr where
      t: "calls w' = calls ?w0 @ tr" "prefix (ingredient_requests tr) (ingredients d)"
        "upsert_requests tr = []" "upserts_resolved tr"
        "\<forall>v'. r = Inr v' \<and> loop_vars_ok initial_risk_vars \<and> riskClassification v' \<noteq> ''avoid''
                    \<longrightarrow> ingredient_requests tr = ingredients d"
      by blast
    show ?thesis
    proof (cases r)
      case (Inl e)
      with Inr l have "calculateDishRisk be d userId w
          = (unable_to_assess d, console_error (''Error calculating risk: '' @ e) w')"
        by (simp add: calculateDishRisk_def calculateDishRisk_try_def await_def remote_eq)
      with t show ?thesis
        by (intro exI[of _ "outcome_of ?p"] exI[of _ tr])
           (simp add: console_error_def unable_to_assess_def)
    next
      case r: (Inr v)
      with Inr l have c: "calculateDishRisk be d userId w = (assessment_of d (default_safe v), w')"
        by (simp add: calculateDishRisk_def calculateDishRisk_try_def await_def return_def remote_eq)
      have "risk_classification (assessment_of d (default_safe v)) = ''safe''
            \<or> risk_classification (assessment_of d (default_safe v)) = ''caution''
            \<Longrightarrow> riskClassification v \<noteq> ''avoid''"
        by (auto simp: assessment_of_def default_safe_def split: if_splits)
      with t r c initial_risk_vars_ok show ?thesis
        by (intro exI[of _ "outcome_of ?p"] exI[of _ tr]) auto
    qed
  qed
qed











section \<open>Independence of earlier results\<close>

lemma blind_on_world: "ui_blind (on_world m)"
  by (simp add: ui_blind_def on_world_def case_prod_beta)

lemma blind_set_state: "ui_blind (set_state f)"
  by (simp add: ui_blind_def set_state_def)

lemma blind_return: "ui_blind (return x)"
  by (simp add: ui_blind_def return_def)

lemma blind_await:
  assumes m: "ui_blind m" and k: "\<And>x. ui_blind (k x)"
  shows "ui_blind (await m k)"
  unfolding ui_blind_def
proof (intro allI)
  fix u u' w
  obtain r1 u1 w1 where a: "m (u, w) = (r1, (u1, w1))" by (metis surj_pair)
  obtain r2 u2 w2 where b: "m (u', w) = (r2, (u2, w2))" by (metis surj_pair)
  from m a b have same: "r2 = r1" "w2 = w1" unfolding ui_blind_def by (metis fst_conv snd_conv)+
  show "fst (await m k (u, w)) = fst (await m k (u', w))
      \<and> snd (snd (await m k (u, w))) = snd (snd (await m k (u', w)))"
  proof (cases r1)
    case (Inl e)
    with a b same show ?thesis by (simp add: await_def)
  next
    case (Inr x)
    from k[of x] have "fst (k x (u1, w1)) = fst (k x (u2, w1))
        \<and> snd (snd (k x (u1, w1))) = snd (snd (k x (u2, w1)))"
      unfolding ui_blind_def by blast
    with Inr a b same show ?thesis by (simp add: await_def)
  qed
qed

lemma blind_classify_food: "ui_blind (classify_food be q)"
  unfolding classify_food_def
  by (intro blind_await blind_on_world) (auto intro!: blind_await blind_on_world blind_return split: option.splits)

lemma blind_loadRecentLookups_try: "ui_blind (loadRecentLookups_try be)"
  unfolding loadRecentLookups_try_def
  by (intro blind_await blind_on_world)
     (auto intro!: blind_await blind_on_world blind_return blind_set_state split: option.splits)

lemma blind_loadRecentLookups:
  "snd (loadRecentLookups be (u, w)) = snd (loadRecentLookups be (u', w))"
proof -
  from blind_loadRecentLookups_try[of be]
  have "fst (loadRecentLookups_try be (u, w)) = fst (loadRecentLookups_try be (u', w))"
    and "snd (snd (loadRecentLookups_try be (u, w))) = snd (snd (loadRecentLookups_try be (u', w)))"
    unfolding ui_blind_def by blast+
  then show ?thesis
    by (cases "loadRecentLookups_try be (u, w)"; cases "loadRecentLookups_try be (u', w)")
       (auto simp: loadRecentLookups_def log_error_def split: sum.splits)
qed

lemma blind_save_lookup: "ui_blind (save_lookup be lr)"
proof -
  have "ui_blind (\<lambda>s. return () (loadRecentLookups be s))"
    using blind_loadRecentLookups[of be] by (simp add: ui_blind_def return_def)
  then show ?thesis
    unfolding save_lookup_def
    by (intro blind_await blind_on_world) (auto intro!: blind_await blind_on_world blind_return split: option.splits)
qed

lemma blind_handleLookup_try: "ui_blind (handleLookup_try be q)"
  unfolding handleLookup_try_def
  by (intro blind_await blind_classify_food blind_set_state blind_save_lookup)

lemma handleLookup_world:
  assumes "searchQuery u = searchQuery u'" and "\<not> blank (searchQuery u)"
  shows "snd (handleLookup be (u, w)) = snd (handleLookup be (u', w))"
proof -
  let ?q = "searchQuery u"
  let ?s = "(u\<lparr>loading := True, result := None\<rparr>, w)"
  let ?s' = "(u'\<lparr>loading := True, result := None\<rparr>, w)"
  from blind_handleLookup_try[of be ?q]
  have "fst (handleLookup_try be ?q ?s) = fst (handleLookup_try be ?q ?s')"
    and "snd (snd (handleLookup_try be ?q ?s)) = snd (snd (handleLookup_try be ?q ?s'))"
    unfolding ui_blind_def by blast+
  with assms show ?thesis
    by (cases "handleLookup_try be ?q ?s"; cases "handleLookup_try be ?q ?s'")
       (auto simp: handleLookup_def log_error_def split: sum.splits)
qed

lemma handleLookup_result_blind:
  assumes "searchQuery u = searchQuery u'" and "\<not> blank (searchQuery u)"
  shows "result (fst (handleLookup be (u, w))) = result (fst (handleLookup be (u', w)))"
proof -
  let ?q = "searchQuery u"
  from blind_classify_food[of be ?q]
  have "fst (classify_food be ?q (u\<lparr>loading := True, result := None\<rparr>, w))
      = fst (classify_food be ?q (u'\<lparr>loading := True, result := None\<rparr>, w))"
    unfolding ui_blind_def by blast
  with assms handleLookup_result[of "(u, w)" be] handleLookup_result[of "(u', w)" be]
  show ?thesis by (simp split: sum.splits)
qed

lemma grows_on_world_remote: "grows snd (on_world (remote rq f))"
  by (simp add: grows_def on_world_remote)

lemma grows_set_state: "grows snd (set_state f)"
  by (simp add: grows_def set_state_def)

lemma grows_return: "grows wof (return x)"
  by (simp add: grows_def return_def)

lemma grows_await:
  assumes m: "grows wof m" and k: "\<And>x. grows wof (k x)"
  shows "grows wof (await m k)"
  unfolding grows_def
proof
  fix s
  obtain r1 s1 where a: "m s = (r1, s1)" by (cases "m s")
  from m a obtain tr1 where t1: "calls (wof s1) = calls (wof s) @ tr1"
    unfolding grows_def by (metis snd_conv)
  show "\<exists>tr. calls (wof (snd (await m k s))) = calls (wof s) @ tr"
  proof (cases r1)
    case (Inl e)
    with a t1 show ?thesis by (simp add: await_def)
  next
    case (Inr x)
    from k[of x] obtain tr2 where "calls (wof (snd (k x s1))) = calls (wof s1) @ tr2"
      unfolding grows_def by blast
    with Inr a t1 show ?thesis by (simp add: await_def)
  qed
qed

lemma grows_loadRecentLookups: "\<exists>tr. calls (snd (loadRecentLookups be s)) = calls (snd s) @ tr"
proof -
  have "grows snd (loadRecentLookups_try be)"
    unfolding loadRecentLookups_try_def
    by (intro grows_await grows_on_world_remote)
       (auto intro!: grows_await grows_on_world_remote grows_return grows_set_state split: option.splits)
  then obtain tr where "calls (snd (snd (loadRecentLookups_try be s))) = calls (snd s) @ tr"
    unfolding grows_def by blast
  then show ?thesis
    by (cases "loadRecentLookups_try be s")
       (auto simp: loadRecentLookups_def log_error_def console_error_def split: sum.splits)
qed

lemma grows_save_lookup: "grows snd (save_lookup be lr)"
proof -
  have "grows snd (\<lambda>s. return () (loadRecentLookups be s))"
    using grows_loadRecentLookups[of be] by (simp add: grows_def return_def)
  then show ?thesis
    unfolding save_lookup_def
    by (intro grows_await grows_on_world_remote)
       (auto intro!: grows_await grows_on_world_remote grows_return split: option.splits)
qed

lemma classify_food_first_call:
  "\<exists>oc tr. calls (snd (snd (classify_food be q s)))
     = calls (snd s) @ (SearchIngredient (''%'' @ q @ ''%''), oc) # tr"
  unfolding classify_food_def await_def return_def on_world_remote
  by (auto split: sum.splits option.splits)

lemma handleLookup_first_call:
  assumes "\<not> blank (searchQuery u)"
  shows "\<exists>oc tr. calls (snd (handleLookup be (u, w)))
           = calls w @ (SearchIngredient (''%'' @ searchQuery u @ ''%''), oc) # tr"
proof -
  let ?q = "searchQuery u"
  let ?s = "(u\<lparr>loading := True, result := None\<rparr>, w)"
  obtain r1 s1 where c: "classify_food be ?q ?s = (r1, s1)" by (cases "classify_food be ?q ?s")
  from classify_food_first_call[of be ?q ?s] c obtain oc tr1 where
    t1: "calls (snd s1) = calls w @ (SearchIngredient (''%'' @ ?q @ ''%''), oc) # tr1"
    by auto
  have g: "grows snd (await (set_state (\<lambda>st. st\<lparr>result := Some (lookupResult_of ?q cri)\<rparr>))
            (\<lambda>_. save_lookup be (lookupResult_of ?q cri)))" for cri
    by (intro grows_await grows_set_state grows_save_lookup)
  have "\<exists>tr2. calls (snd (snd (handleLookup_try be ?q ?s))) = calls (snd s1) @ tr2"
  proof (cases r1)
    case (Inl e)
    with c show ?thesis by (simp add: handleLookup_try_def await_def)
  next
    case (Inr cri)
    with c have "handleLookup_try be ?q ?s
        = await (set_state (\<lambda>st. st\<lparr>result := Some (lookupResult_of ?q cri)\<rparr>))
            (\<lambda>_. save_lookup be (lookupResult_of ?q cri)) s1"
      by (simp add: handleLookup_try_def await_def)
    with g[of cri] show ?thesis unfolding grows_def by (cases s1) auto
  qed
  then obtain tr2 where
    t2: "calls (snd (snd (handleLookup_try be ?q ?s))) = calls (snd s1) @ tr2" by blast
  from assms have "calls (snd (handleLookup be (u, w))) = calls (snd (snd (handleLookup_try be ?q ?s)))"
    by (cases "handleLookup_try be ?q ?s")
       (auto simp: handleLookup_def log_error_def console_error_def split: sum.splits)
  with t1 t2 show ?thesis by auto
qed

lemma assessDishRisks_blind:
  "snd (assessDishRisks be dishList (b, w)) = snd (assessDishRisks be dishList (b', w))
   \<and> (riskAssessments (fst (assessDishRisks be dishList (b, w)))
        = riskAssessments (fst (assessDishRisks be dishList (b', w)))
      \<or> riskAssessments (fst (assessDishRisks be dishList (b, w))) = riskAssessments b
        \<and> riskAssessments (fst (assessDishRisks be dishList (b', w))) = riskAssessments b')"
  unfolding assessDishRisks_def assessDishRisks_try_def await_def return_def on_world_def
    set_state_def log_error_def
  by (auto split: prod.splits sum.splits option.splits)

lemma saved_simps [simp]:
  "saved_assessments [] = []"
  "saved_assessments (tr @ tr') = saved_assessments tr @ saved_assessments tr'"
  "saved_assessments (c # tr) = (case saved (fst c) of None \<Rightarrow> [] | Some p \<Rightarrow> [p]) @ saved_assessments tr"
  by (auto simp: saved_assessments_def List.map_filter_def split: option.splits)

lemma saved_fst: "map fst (saved_assessments tr) = upsert_requests tr"
proof (induction tr)
  case Nil
  show ?case by simp
next
  case (Cons c tr)
  then show ?case by (cases "fst c") simp_all
qed

lemma assess_loop_map:
  assumes "assess_loop be u ds m w = (r, w')"
  shows "\<exists>tr. calls w' = calls w @ tr
            \<and> (case r of
                 Inr m' \<Rightarrow> m' = m ++ map_of (rev (saved_assessments tr)) \<and> upserts_resolved tr
                           \<and> upsert_requests tr = map dish_id ds
               | Inl e \<Rightarrow> \<not> upserts_resolved tr)"
  using assms
proof (induction ds arbitrary: m w)
  case Nil
  then show ?case by (intro exI[of _ "[]"]) auto
next
  case (Cons d ds)
  let ?c = "calculateDishRisk be d u w"
  let ?a = "fst ?c"
  let ?w1 = "snd ?c"
  from calculateDishRisk_calls[of be d u w] obtain oc tr1 where
    t1: "calls ?w1 = calls w @ (SelectProfile u, oc) # tr1"
      "upsert_requests tr1 = []" "upserts_resolved tr1"
    by blast
  from t1(2) have s1: "saved_assessments tr1 = []"
    using saved_fst[of tr1] by simp
  let ?u = "dish_assessments_upsert be (length (calls ?w1)) u ?a"
  let ?w2 = "?w1\<lparr>calls := calls ?w1 @ [(UpsertDishAssessment u ?a, outcome_of ?u)]\<rparr>"
  define tr2 where
    "tr2 = (SelectProfile u, oc) # tr1 @ [(UpsertDishAssessment u ?a, outcome_of ?u)]"
  have c2: "calls ?w2 = calls w @ tr2" using t1 by (simp add: tr2_def)
  have u2: "upsert_requests tr2 = [dish_id d]"
    using t1 by (simp add: tr2_def calculateDishRisk_dish_id)
  have s2: "saved_assessments tr2 = [(dish_id d, ?a)]"
    using s1 by (simp add: tr2_def calculateDishRisk_dish_id)
  have r2: "upserts_resolved tr2 \<longleftrightarrow> outcome_of ?u = Resolved"
    using t1 by (simp add: tr2_def)
  show ?case
  proof (cases ?u)
    case (Inl e)
    with Cons.prems have "r = Inl e" "w' = ?w2"
      by (simp_all add: remote_eq case_prod_beta)
    moreover from Inl r2 have "\<not> upserts_resolved tr2" by (simp add: outcome_of_def)
    ultimately show ?thesis using c2 by (intro exI[of _ tr2]) simp
  next
    case (Inr error)
    let ?w3 = "case error of None \<Rightarrow> ?w2 | Some er \<Rightarrow> console_error (''Error saving assessment: '' @ er) ?w2"
    have c3: "calls ?w3 = calls ?w2" by (simp add: console_error_def split: option.splits)
    from Inr Cons.prems have l: "assess_loop be u ds (m(dish_id d \<mapsto> ?a)) ?w3 = (r, w')"
      by (simp add: remote_eq case_prod_beta)
    from Cons.IH[OF l] obtain tr3 where
      t3: "calls w' = calls ?w3 @ tr3"
        "case r of
           Inr m' \<Rightarrow> m' = m(dish_id d \<mapsto> ?a) ++ map_of (rev (saved_assessments tr3)) \<and> upserts_resolved tr3
                     \<and> upsert_requests tr3 = map dish_id ds
         | Inl e \<Rightarrow> \<not> upserts_resolved tr3"
      by blast
    from Inr r2 have ok2: "upserts_resolved tr2" by (simp add: outcome_of_def)
    have "calls w' = calls w @ (tr2 @ tr3)" using t3 c3 c2 by simp
    moreover have "case r of
           Inr m' \<Rightarrow> m' = m ++ map_of (rev (saved_assessments (tr2 @ tr3))) \<and> upserts_resolved (tr2 @ tr3)
                     \<and> upsert_requests (tr2 @ tr3) = map dish_id (d # ds)
         | Inl e \<Rightarrow> \<not> upserts_resolved (tr2 @ tr3)"
      using t3(2) ok2 u2 s2 by (auto split: sum.splits simp: map_add_def fun_eq_iff split: option.splits)
    ultimately show ?thesis by blast
  qed
qed

lemma assessDishRisks_map:
  "\<exists>tr. calls (snd (assessDishRisks be dishList (b, w))) = calls w @ tr
      \<and> (if (\<exists>usr. auth_getUser be (length (calls w)) = Inr (Some usr)) \<and> upserts_resolved tr
         then riskAssessments (fst (assessDishRisks be dishList (b, w))) = map_of (rev (saved_assessments tr))
              \<and> upsert_requests tr = map dish_id dishList
         else riskAssessments (fst (assessDishRisks be dishList (b, w))) = riskAssessments b)"
proof -
  let ?g = "auth_getUser be (length (calls w))"
  let ?w1 = "w\<lparr>calls := calls w @ [(AuthGetUser, outcome_of ?g)]\<rparr>"
  show ?thesis
  proof (cases ?g)
    case (Inl e)
    then have "assessDishRisks be dishList (b, w)
        = (b, console_error (''Error assessing dish risks: '' @ e) ?w1)"
      by (simp add: assessDishRisks_def assessDishRisks_try_def await_def on_world_remote log_error_def)
    with Inl show ?thesis
      by (intro exI[of _ "[(AuthGetUser, outcome_of ?g)]"]) (simp add: console_error_def)
  next
    case (Inr usr)
    show ?thesis
    proof (cases usr)
      case None
      with Inr have "assessDishRisks be dishList (b, w) = (b, ?w1)"
        by (simp add: assessDishRisks_def assessDishRisks_try_def await_def on_world_remote return_def)
      with Inr None show ?thesis
        by (intro exI[of _ "[(AuthGetUser, outcome_of ?g)]"]) simp
    next
      case (Some u)
      obtain r w' where l: "assess_loop be (user_id u) dishList Map.empty ?w1 = (r, w')"
        by (cases "assess_loop be (user_id u) dishList Map.empty ?w1")
      from assess_loop_map[OF l] obtain tr where
        t: "calls w' = calls ?w1 @ tr"
          "case r of
             Inr m' \<Rightarrow> m' = Map.empty ++ map_of (rev (saved_assessments tr)) \<and> upserts_resolved tr
                       \<and> upsert_requests tr = map dish_id dishList
           | Inl e \<Rightarrow> \<not> upserts_resolved tr"
        by blast
      from Inr Some have eq: "assessDishRisks_try be dishList (b, w)
          = await (on_world (assess_loop be (user_id u) dishList Map.empty))
              (\<lambda>assessmentMap. set_state (\<lambda>st. st\<lparr>riskAssessments := assessmentMap\<rparr>))
              (b, ?w1)"
        by (simp add: assessDishRisks_try_def await_def on_world_remote)
      show ?thesis
      proof (cases r)
        case (Inl e)
        with eq l have "assessDishRisks be dishList (b, w)
            = (b, console_error (''Error assessing dish risks: '' @ e) w')"
          by (simp add: assessDishRisks_def await_def on_world_def log_error_def)
        with t Inl show ?thesis
          by (intro exI[of _ "(AuthGetUser, outcome_of ?g) # tr"]) (simp add: console_error_def)
      next
        case r: (Inr m')
        with eq l have "assessDishRisks be dishList (b, w) = (b\<lparr>riskAssessments := m'\<rparr>, w')"
          by (simp add: assessDishRisks_def await_def on_world_def set_state_def)
        with t r Inr Some show ?thesis
          by (intro exI[of _ "(AuthGetUser, outcome_of ?g) # tr"]) (simp add: outcome_of_def)
      qed
    qed
  qed
qed

text \<open>
  Claim C9, as amended. The results of the lookups are kept in component state, but no
  lookup consults them. Two runs of \<open>handleLookup\<close> for the same non-blank query from
  the same world store the same result and make the same remote calls whatever result
  and recent lookups the component held before, and the first call is the ingredient
  search. A run of \<open>assessDishRisks\<close> makes the same calls whatever assessments were
  held before. When the user is signed in and no save is rejected, the map it leaves in
  \<open>riskAssessments\<close> is exactly the assessments this run saved, by dish id, and they
  are the saves of the dishes of the list in order; in every other case the run ends
  early and the map held before stays in place.
\<close>

theorem results_kept_never_consulted:
  "(searchQuery u = searchQuery u' \<and> \<not> blank (searchQuery u) \<longrightarrow>
      result (fst (handleLookup be (u, w))) = result (fst (handleLookup be (u', w)))
      \<and> snd (handleLookup be (u, w)) = snd (handleLookup be (u', w))
      \<and> (\<exists>oc tr. calls (snd (handleLookup be (u, w)))
                   = calls w @ (SearchIngredient (''%'' @ searchQuery u @ ''%''), oc) # tr))
   \<and> snd (assessDishRisks be dishList (b, w)) = snd (assessDishRisks be dishList (b', w))
   \<and> (\<exists>tr. calls (snd (assessDishRisks be dishList (b, w))) = calls w @ tr
        \<and> (if (\<exists>usr. auth_getUser be (length (calls w)) = Inr (Some usr)) \<and> upserts_resolved tr
           then riskAssessments (fst (assessDishRisks be dishList (b, w)))
                  = map_of (rev (saved_assessments tr))
                \<and> upsert_requests tr = map dish_id dishList
           else riskAssessments (fst (assessDishRisks be dishList (b, w))) = riskAssessments b))"
  using handleLookup_result_blind[of u u' be w] handleLookup_world[of u u' be w]
    handleLookup_first_call[of u be w] assessDishRisks_blind[of be dishList b w b']
    assessDishRisks_map[of be dishList b w]
  by blast

text \<open>
  The claim as first stated says that no result is kept in application memory and used
  again without a new query. The map \<open>riskAssessments\<close> is such a store. Here it holds
  \<open>caution\<close> for the grapefruit salad; the dishes are assessed again after the session
  has ended and the ingredient has been marked unsafe, so that a fresh assessment would
  be \<open>avoid\<close>: the only call is the user query, the map still says \<open>caution\<close>, and
  the dish is still listed.
\<close>

theorem stale_assessment_counterexample:
  "stored_classification (menu_state ''all'') grapefruit_salad = Some ''caution''
   \<and> calls (snd (assessDishRisks recall_backend (dishes (menu_state ''all'')) (menu_state ''all'', world0)))
       = [(AuthGetUser, Resolved)]
   \<and> stored_classification
        (fst (assessDishRisks recall_backend (dishes (menu_state ''all'')) (menu_state ''all'', world0)))
        grapefruit_salad = Some ''caution''
   \<and> grapefruit_salad \<in> set (filteredDishes
        (fst (assessDishRisks recall_backend (dishes (menu_state ''all'')) (menu_state ''all'', world0))))
   \<and> risk_classification (fst (calculateDishRisk recall_backend grapefruit_salad ''u1'' world0)) = ''avoid''"
  by code_simp

theorem results_kept_never_consulted_witness:
  "searchQuery (query_state ''salmon'') = searchQuery stale_state
   \<and> \<not> blank (searchQuery (query_state ''salmon''))
   \<and> result stale_state = Some (shown_result ''avoid'')
   \<and> result (fst (handleLookup sample_backend (query_state ''salmon'', world0)))
       = result (fst (handleLookup sample_backend (stale_state, world0)))
   \<and> snd (handleLookup sample_backend (query_state ''salmon'', world0))
       = snd (handleLookup sample_backend (stale_state, world0))
   \<and> (\<exists>oc tr. calls (snd (handleLookup sample_backend (query_state ''salmon'', world0)))
                 = (SearchIngredient ''%salmon%'', oc) # tr)
   \<and> auth_getUser sample_backend 0 = Inr (Some \<lparr>user_id = ''u1''\<rparr>)
   \<and> upserts_resolved (calls (snd (assessDishRisks sample_backend [grapefruit_salad, berry_cup]
                                      (menu_state ''all'', world0))))
   \<and> riskAssessments (fst (assessDishRisks sample_backend [grapefruit_salad, berry_cup]
                              (menu_state ''all'', world0)))
       = map_of (rev (saved_assessments (calls (snd (assessDishRisks sample_backend
                        [grapefruit_salad, berry_cup] (menu_state ''all'', world0))))))
   \<and> upsert_requests (calls (snd (assessDishRisks sample_backend [grapefruit_salad, berry_cup]
                                     (menu_state ''all'', world0))))
       = [''d2'', ''d5'']
   \<and> auth_getUser recall_backend 0 = Inr None
   \<and> riskAssessments (fst (assessDishRisks recall_backend [grapefruit_salad, berry_cup]
                              (menu_state ''all'', world0)))
       = riskAssessments (menu_state ''all'')"
proof -
  let ?run = "assessDishRisks sample_backend [grapefruit_salad, berry_cup] (menu_state ''all'', world0)"
  let ?run2 = "assessDishRisks recall_backend [grapefruit_salad, berry_cup] (menu_state ''all'', world0)"
  have a: "searchQuery (query_state ''salmon'') = searchQuery stale_state"
    and b: "\<not> blank (searchQuery (query_state ''salmon''))"
    and c: "result stale_state = Some (shown_result ''avoid'')"
    and q: "searchQuery (query_state ''salmon'') = ''salmon''"
    by (simp_all add: query_state_def stale_state_def blank_def is_space_def)
  have w0: "calls world0 = []" by (simp add: world0_def)
  have g: "auth_getUser sample_backend 0 = Inr (Some \<lparr>user_id = ''u1''\<rparr>)"
    by (simp add: sample_backend_def)
  have g2: "auth_getUser recall_backend 0 = Inr None"
    by (simp add: recall_backend_def)
  have r: "upserts_resolved (calls (snd ?run))" by code_simp
  have ids: "map dish_id [grapefruit_salad, berry_cup] = [''d2'', ''d5'']"
    by (simp add: grapefruit_salad_def berry_cup_def)
  note inst = results_kept_never_consulted [of "query_state ''salmon''" stale_state sample_backend world0
      "[grapefruit_salad, berry_cup]" "menu_state ''all''" "menu_state ''safe''"]
  from inst [THEN conjunct1] a b
  have "result (fst (handleLookup sample_backend (query_state ''salmon'', world0)))
       = result (fst (handleLookup sample_backend (stale_state, world0)))
   \<and> snd (handleLookup sample_backend (query_state ''salmon'', world0))
       = snd (handleLookup sample_backend (stale_state, world0))
   \<and> (\<exists>oc tr. calls (snd (handleLookup sample_backend (query_state ''salmon'', world0)))
                 = calls world0 @ (SearchIngredient (''%'' @ searchQuery (query_state ''salmon'') @ ''%''), oc) # tr)"
    by blast
  then have 1: "result (fst (handleLookup sample_backend (query_state ''salmon'', world0)))
       = result (fst (handleLookup sample_backend (stale_state, world0)))
   \<and> snd (handleLookup sample_backend (query_state ''salmon'', world0))
       = snd (handleLookup sample_backend (stale_state, world0))
   \<and> (\<exists>oc tr. calls (snd (handleLookup sample_backend (query_state ''salmon'', world0)))
                 = (SearchIngredient ''%salmon%'', oc) # tr)"
    unfolding q w0 append_Cons append_Nil .
  from inst [THEN conjunct2, THEN conjunct2] obtain tr where
    t: "calls (snd ?run) = calls world0 @ tr"
    and m: "if (\<exists>usr. auth_getUser sample_backend (length (calls world0)) = Inr (Some usr))
                \<and> upserts_resolved tr
            then riskAssessments (fst ?run) = map_of (rev (saved_assessments tr))
                 \<and> upsert_requests tr = map dish_id [grapefruit_salad, berry_cup]
            else riskAssessments (fst ?run) = riskAssessments (menu_state ''all'')"
    by blast
  from t w0 have tr: "tr = calls (snd ?run)" by simp
  from m tr r g w0 ids have 2: "riskAssessments (fst ?run) = map_of (rev (saved_assessments (calls (snd ?run))))
      \<and> upsert_requests (calls (snd ?run)) = [''d2'', ''d5'']"
    by simp
  from results_kept_never_consulted [of "query_state ''salmon''" stale_state recall_backend world0
      "[grapefruit_salad, berry_cup]" "menu_state ''all''" "menu_state ''safe''",
      THEN conjunct2, THEN conjunct2] g2 w0
  have 3: "riskAssessments (fst ?run2) = riskAssessments (menu_state ''all'')"
    by auto
  from a b c 1 g r 2 g2 3 show ?thesis by blast
qed

end
